theory Spec2Isabelle
  imports Complex_Main "HOL-Library.Char_ord" "HOL-Library.List_Lexorder"
begin

section \<open>Data model\<close>

text \<open>
  The backend keeps three collections that matter here: bookings (models/Booking),
  consultants (models/Consultant) and categories (models/Category). Document ids are
  ObjectIds, modelled as natural numbers; dates are instants, modelled as integers
  (milliseconds); money and rating averages are JavaScript numbers, modelled as rationals
  (the sums formed here are sums of integers and are exact, the quotient is taken
  exactly). Strings are lists of characters.
\<close>

type_synonym objectId = nat
type_synonym timestamp = int

datatype status = Pending | Confirmed | Completed | Cancelled | NoShow

datatype role = Client | Consultant | Admin

datatype meeting = Video | Audio | InPerson

record user =
  userId :: objectId
  role :: role

record booking =
  bookingId :: objectId
  client :: objectId
  consultant :: objectId
  category :: objectId
  date :: timestamp
  duration :: nat
  startTime :: string
  endTime :: string
  status :: status
  totalAmount :: rat
  notes_client :: "string option"
  notes_consultant :: "string option"
  meetingType :: meeting
  cancellationReason :: "string option"
  cancelledBy :: "string option"
  cancelledAt :: "timestamp option"
  completedAt :: "timestamp option"
  rating_score :: "int option"
  rating_review :: "string option"
  rating_createdAt :: "timestamp option"

record consultantProfile =
  consultantId :: objectId
  user :: objectId
  categories :: "objectId list"
  bio :: string
  experience :: nat
  hourlyRate :: rat
  languages :: "string list"
  rating_average :: rat
  rating_count :: nat
  isVerified :: bool
  isActive :: bool
  totalBookings :: int
  completedBookings :: int

record categoryDoc =
  categoryId :: objectId
  name :: string
  description :: string
  icon :: string
  color :: string
  cat_isActive :: bool
  sortOrder :: nat
  consultantCount :: int
  bookingCount :: int

record store =
  bookingColl :: "booking list"
  consultantColl :: "consultantProfile list"
  categoryColl :: "categoryDoc list"

text \<open>
  A document in memory, as the object-mapping layer hands it to the handlers and to the
  pre-save hooks: its field values, whether it was made by \<open>new Model(...)\<close> and not yet
  stored (\<open>isNew\<close>), the paths assigned since it was loaded (\<open>isModified\<close>), and the
  property \<open>_original\<close> that two of the hooks read. No statement of the repository
  assigns \<open>_original\<close>, so a document returned by \<open>findById\<close>, \<open>findOne\<close> or
  \<open>new Model(...)\<close> carries none.
\<close>

record 'a document =
  doc :: 'a
  isNew :: bool
  modifiedPaths :: "string list"
  original :: "'a option"

definition loaded :: "'a \<Rightarrow> 'a document" where
  "loaded x = \<lparr>doc = x, isNew = False, modifiedPaths = [], original = None\<rparr>"

definition created :: "string list \<Rightarrow> 'a \<Rightarrow> 'a document" where
  "created ps x = \<lparr>doc = x, isNew = True, modifiedPaths = ps, original = None\<rparr>"

definition isModified :: "'a document \<Rightarrow> string \<Rightarrow> bool" where
  "isModified d p \<longleftrightarrow> p \<in> set (modifiedPaths d)"

text \<open>
  An assignment \<open>doc.path = value\<close>: the field is written, and the path counts as
  modified when the value differs from the one the document held.
\<close>

definition changes :: "('a \<Rightarrow> 'a) \<Rightarrow> 'a document \<Rightarrow> bool" where
  "changes f d \<longleftrightarrow> f (doc d) \<noteq> doc d"

definition assign :: "string \<Rightarrow> ('a \<Rightarrow> 'a) \<Rightarrow> 'a document \<Rightarrow> 'a document" where
  "assign p f d =
     (if changes f d then d\<lparr>doc := f (doc d), modifiedPaths := p # modifiedPaths d\<rparr>
      else d)"

text \<open>A response is the HTTP status with its message.\<close>

type_synonym response = "nat \<times> string"

text \<open>JavaScript truthiness of an optional string and of an optional number.\<close>

definition truthy_str :: "string option \<Rightarrow> bool" where
  "truthy_str v = (case v of None \<Rightarrow> False | Some s \<Rightarrow> s \<noteq> [])"

definition truthy_num :: "int option \<Rightarrow> bool" where
  "truthy_num v = (case v of None \<Rightarrow> False | Some n \<Rightarrow> n \<noteq> 0)"

section \<open>Clock times\<close>

definition isDigit :: "char \<Rightarrow> bool" where
  "isDigit c \<longleftrightarrow> CHR ''0'' \<le> c \<and> c \<le> CHR ''9''"

definition digitVal :: "char \<Rightarrow> nat" where
  "digitVal c = of_char c - 48"

definition digitChar :: "nat \<Rightarrow> char" where
  "digitChar n = char_of (48 + n)"

text \<open>The pattern \<open>^([01]?[0-9]|2[0-3]):[0-5][0-9]$\<close> of the schema and of the routes.\<close>

fun valid_time :: "string \<Rightarrow> bool" where
  "valid_time [h, c, m1, m2] =
     (isDigit h \<and> c = CHR '':'' \<and> CHR ''0'' \<le> m1 \<and> m1 \<le> CHR ''5'' \<and> isDigit m2)"
| "valid_time [h1, h2, c, m1, m2] =
     (((h1 = CHR ''0'' \<or> h1 = CHR ''1'') \<and> isDigit h2
        \<or> h1 = CHR ''2'' \<and> CHR ''0'' \<le> h2 \<and> h2 \<le> CHR ''3'')
      \<and> c = CHR '':'' \<and> CHR ''0'' \<le> m1 \<and> m1 \<le> CHR ''5'' \<and> isDigit m2)"
| "valid_time _ = False"

text \<open>
  \<open>new Date(`2000-01-01T${startTime}:00`)\<close>: the minute of the day when the string is a
  date-time of the ISO form, which wants two digits for the hour and two for the minute;
  any other text gives an invalid date (\<open>None\<close>). Hours above 23 never reach the hook,
  since the pattern above is checked first, and are left invalid here.
\<close>

fun parseClock :: "string \<Rightarrow> nat option" where
  "parseClock [h1, h2, c, m1, m2] =
     (if isDigit h1 \<and> isDigit h2 \<and> c = CHR '':'' \<and> isDigit m1 \<and> isDigit m2
         \<and> 10 * digitVal h1 + digitVal h2 \<le> 23 \<and> 10 * digitVal m1 + digitVal m2 \<le> 59
      then Some (60 * (10 * digitVal h1 + digitVal h2) + (10 * digitVal m1 + digitVal m2))
      else None)"
| "parseClock _ = None"

definition pad2 :: "nat \<Rightarrow> string" where
  "pad2 n = [digitChar (n div 10), digitChar (n mod 10)]"

text \<open>
  \<open>toTimeString().slice(0, 5)\<close> of the instant \<open>m\<close> minutes after midnight of 1 January
  2000: the clock time of that instant, which is past midnight when \<open>m\<close> reaches 1440;
  of an invalid date it is the first five characters of \<open>Invalid Date\<close>.
\<close>

definition clockString :: "nat option \<Rightarrow> string" where
  "clockString t =
     (case t of
        None \<Rightarrow> ''Inval''
      | Some m \<Rightarrow> pad2 ((m mod 1440) div 60) @ '':'' @ pad2 ((m mod 1440) mod 60))"

definition addMinutes :: "nat option \<Rightarrow> nat \<Rightarrow> nat option" where
  "addMinutes t d = map_option (\<lambda>m. m + d) t"

section \<open>The document store\<close>

text \<open>
  The store is used through \<open>findById\<close>, \<open>findOne\<close>, \<open>find\<close>, \<open>save\<close>,
  \<open>findByIdAndUpdate\<close> and \<open>updateMany\<close>. \<open>save\<close> runs the validators of the schema
  on every path of the document, those loaded from the store as well as those the request
  has written, then the pre-save hooks of the schema in the order they are registered,
  then writes the document. A validator is not run on a value that is absent.
\<close>

text \<open>The stored document with a given id, if any.\<close>

definition storedBooking :: "store \<Rightarrow> objectId \<Rightarrow> booking option" where
  "storedBooking s i = find (\<lambda>b. bookingId b = i) (bookingColl s)"

definition storedConsultant :: "store \<Rightarrow> objectId \<Rightarrow> consultantProfile option" where
  "storedConsultant s i = find (\<lambda>c. consultantId c = i) (consultantColl s)"

definition storedCategory :: "store \<Rightarrow> objectId \<Rightarrow> categoryDoc option" where
  "storedCategory s i = find (\<lambda>c. categoryId c = i) (categoryColl s)"

definition findBookingById :: "store \<Rightarrow> objectId \<Rightarrow> booking document option" where
  "findBookingById s i = map_option loaded (storedBooking s i)"

definition findConsultantById :: "store \<Rightarrow> objectId \<Rightarrow> consultantProfile document option" where
  "findConsultantById s i = map_option loaded (storedConsultant s i)"

definition profileOfUser :: "store \<Rightarrow> objectId \<Rightarrow> consultantProfile option" where
  "profileOfUser s u = find (\<lambda>c. user c = u) (consultantColl s)"

definition findConsultantByUser :: "store \<Rightarrow> objectId \<Rightarrow> consultantProfile document option" where
  "findConsultantByUser s u = map_option loaded (profileOfUser s u)"

text \<open>\<open>Consultant.findByIdAndUpdate(id, { $inc: ... })\<close>.\<close>

definition updateConsultantById ::
  "objectId \<Rightarrow> (consultantProfile \<Rightarrow> consultantProfile) \<Rightarrow> store \<Rightarrow> store" where
  "updateConsultantById i f s =
     s\<lparr>consultantColl := map (\<lambda>c. if consultantId c = i then f c else c) (consultantColl s)\<rparr>"

definition atMost_len :: "nat \<Rightarrow> string option \<Rightarrow> bool" where
  "atMost_len n v = (case v of None \<Rightarrow> True | Some s \<Rightarrow> length s \<le> n)"

text \<open>
  The validators of the booking schema (\<open>now\<close> is \<open>new Date()\<close>): the date is after
  the clock, the duration is between 30 and 480, both times match the pattern, the amount
  is not negative, the texts respect their lengths, \<open>cancelledBy\<close> is one of its three
  values and the score is between 1 and 5.
\<close>

definition validate_booking :: "timestamp \<Rightarrow> booking \<Rightarrow> bool" where
  "validate_booking now b \<longleftrightarrow>
     now < date b
     \<and> 30 \<le> duration b \<and> duration b \<le> 480
     \<and> valid_time (startTime b)
     \<and> valid_time (endTime b)
     \<and> 0 \<le> totalAmount b
     \<and> atMost_len 500 (notes_client b)
     \<and> atMost_len 500 (notes_consultant b)
     \<and> atMost_len 200 (cancellationReason b)
     \<and> (case cancelledBy b of
          None \<Rightarrow> True
        | Some w \<Rightarrow> w = ''client'' \<or> w = ''consultant'' \<or> w = ''admin'')
     \<and> (case rating_score b of None \<Rightarrow> True | Some n \<Rightarrow> 1 \<le> n \<and> n \<le> 5)
     \<and> atMost_len 1000 (rating_review b)"

text \<open>
  First pre-save hook of the booking schema: the end time is computed from the start
  time and the duration when either was written, and a total amount that is zero is
  computed from the consultant's hourly rate.
\<close>

definition booking_pre_save_endTime :: "store \<Rightarrow> booking document \<Rightarrow> booking document" where
  "booking_pre_save_endTime s d =
     (let d1 = (if isModified d ''startTime'' \<or> isModified d ''duration''
                then assign ''endTime''
                       (\<lambda>b. b\<lparr>endTime :=
                                clockString (addMinutes (parseClock (startTime b)) (duration b))\<rparr>) d
                else d)
      in if totalAmount (doc d1) = 0
         then (case findConsultantById s (consultant (doc d1)) of
                 None \<Rightarrow> d1
               | Some c \<Rightarrow>
                   assign ''totalAmount''
                     (\<lambda>b. b\<lparr>totalAmount := hourlyRate (doc c) * of_nat (duration b) / 60\<rparr>) d1)
         else d1)"

text \<open>
  Second pre-save hook: the consultant's \<open>completedBookings\<close> is incremented when the
  status was written, is \<open>completed\<close>, and \<open>_original\<close> is present with another status;
  \<open>totalBookings\<close> is incremented for a new booking.
\<close>

definition booking_pre_save_counts :: "booking document \<Rightarrow> store \<Rightarrow> store" where
  "booking_pre_save_counts d s =
     (let s1 = (if isModified d ''status''
                then (if status (doc d) = Completed
                         \<and> (case original d of None \<Rightarrow> False | Some b0 \<Rightarrow> status b0 \<noteq> Completed)
                      then updateConsultantById (consultant (doc d))
                             (\<lambda>c. c\<lparr>completedBookings := completedBookings c + 1\<rparr>) s
                      else s)
                else s)
      in if isNew d
         then updateConsultantById (consultant (doc d))
                (\<lambda>c. c\<lparr>totalBookings := totalBookings c + 1\<rparr>) s1
         else s1)"

definition write_booking :: "booking document \<Rightarrow> store \<Rightarrow> store" where
  "write_booking d s =
     (if isNew d then s\<lparr>bookingColl := bookingColl s @ [doc d]\<rparr>
      else s\<lparr>bookingColl :=
                map (\<lambda>x. if bookingId x = bookingId (doc d) then doc d else x) (bookingColl s)\<rparr>)"

datatype error = ValidationError | DuplicateKey | SyntaxError

definition save_booking :: "timestamp \<Rightarrow> booking document \<Rightarrow> store \<Rightarrow> error + store" where
  "save_booking now d s =
     (if \<not> validate_booking now (doc d) then Inl ValidationError
      else let d1 = booking_pre_save_endTime s d;
               s1 = booking_pre_save_counts d1 s
           in Inr (write_booking d1 s1))"

text \<open>
  Modelled from the spec: the error middleware (middleware/errorHandler), which answers
  for an error thrown inside a handler, is not among the sources. The spec has a
  validation error of the store and a duplicate category name surface as status 400, and
  any other runtime failure as status 500.
\<close>

definition errorHandler :: "error \<Rightarrow> response" where
  "errorHandler e =
     (case e of
        ValidationError \<Rightarrow> (400, ''Validation error'')
      | DuplicateKey \<Rightarrow> (400, ''Duplicate field value entered'')
      | SyntaxError \<Rightarrow> (500, ''Server Error''))"

section \<open>Booking routes\<close>

definition authorizeRoles :: "role list \<Rightarrow> user \<Rightarrow> bool" where
  "authorizeRoles roles u \<longleftrightarrow> role u \<in> set roles"

text \<open>
  \<open>PUT /bookings/:id/status\<close>. The assignments the handler makes to the booking it has
  loaded come first, as a function of their own.
\<close>

definition status_update_doc ::
  "timestamp \<Rightarrow> status \<Rightarrow> string option \<Rightarrow> booking document \<Rightarrow> booking document"
where
  "status_update_doc now st notes booking =
     (let b1 = assign ''status'' (\<lambda>b. b\<lparr>status := st\<rparr>) booking;
          b2 = (if truthy_str notes
                then assign ''notes.consultant'' (\<lambda>b. b\<lparr>notes_consultant := notes\<rparr>) b1
                else b1);
          b3 = (if st = Completed
                then assign ''completedAt'' (\<lambda>b. b\<lparr>completedAt := Some now\<rparr>) b2
                else b2)
      in (if st = Cancelled
          then assign ''cancelledBy'' (\<lambda>b. b\<lparr>cancelledBy := Some ''consultant''\<rparr>)
                 (assign ''cancelledAt'' (\<lambda>b. b\<lparr>cancelledAt := Some now\<rparr>) b3)
          else b3))"

definition update_status ::
  "timestamp \<Rightarrow> user \<Rightarrow> objectId \<Rightarrow> status \<Rightarrow> string option \<Rightarrow> store \<Rightarrow> response \<times> store"
where
  "update_status now u i st notes s =
     (if \<not> authorizeRoles [Consultant] u
      then ((403, ''Access denied. Required roles: consultant''), s)
      else if st \<notin> set [Confirmed, Completed, Cancelled, NoShow]
                \<or> \<not> atMost_len 500 notes
      then ((400, ''Validation error''), s)
      else case findBookingById s i of
        None \<Rightarrow> ((404, ''Booking not found''), s)
      | Some booking \<Rightarrow>
         (case findConsultantByUser s (userId u) of
            None \<Rightarrow> ((403, ''Access denied''), s)
          | Some c \<Rightarrow>
             if consultant (doc booking) \<noteq> consultantId (doc c)
             then ((403, ''Access denied''), s)
             else
               let b4 = status_update_doc now st notes booking
               in (case save_booking now b4 s of
                     Inl e \<Rightarrow> (errorHandler e, s)
                   | Inr s' \<Rightarrow> ((200, ''Booking status updated successfully''), s'))))"

text \<open>
  \<open>POST /bookings/:id/cancel\<close>. The route declares a length check on \<open>reason\<close> but the
  handler never reads its result; a reason that is too long is stopped by the schema
  when the booking is saved.
\<close>

definition cancel_doc ::
  "timestamp \<Rightarrow> string option \<Rightarrow> booking document \<Rightarrow> booking document" where
  "cancel_doc now reason booking =
     (let b1 = assign ''status'' (\<lambda>b. b\<lparr>status := Cancelled\<rparr>) booking;
          b2 = assign ''cancelledAt'' (\<lambda>b. b\<lparr>cancelledAt := Some now\<rparr>) b1;
          b3 = assign ''cancelledBy'' (\<lambda>b. b\<lparr>cancelledBy := Some ''client''\<rparr>) b2
      in (if truthy_str reason
          then assign ''cancellationReason'' (\<lambda>b. b\<lparr>cancellationReason := reason\<rparr>) b3
          else b3))"

definition cancel_booking ::
  "timestamp \<Rightarrow> user \<Rightarrow> objectId \<Rightarrow> string option \<Rightarrow> store \<Rightarrow> response \<times> store"
where
  "cancel_booking now u i reason s =
     (if \<not> authorizeRoles [Client] u
      then ((403, ''Access denied. Required roles: client''), s)
      else case findBookingById s i of
        None \<Rightarrow> ((404, ''Booking not found''), s)
      | Some booking \<Rightarrow>
          if client (doc booking) \<noteq> userId u then ((403, ''Access denied''), s)
          else if status (doc booking) \<noteq> Pending \<and> status (doc booking) \<noteq> Confirmed
          then ((400, ''Booking cannot be cancelled in its current status''), s)
          else
            let b4 = cancel_doc now reason booking
            in (case save_booking now b4 s of
                  Inl e \<Rightarrow> (errorHandler e, s)
                | Inr s' \<Rightarrow> ((200, ''Booking cancelled successfully''), s')))"

text \<open>
  The validators of the consultant schema, and its pre-save hook: when the category list
  was written, the counters of the categories in \<open>_original.categories\<close> are decremented
  if \<open>_original\<close> is present, and the counters of the categories now listed are
  incremented if the list is not empty. \<open>updateMany\<close> with \<open>$in\<close> touches each matching
  category once.
\<close>

definition knownLanguages :: "string list" where
  "knownLanguages =
     [''English'', ''Spanish'', ''French'', ''German'', ''Chinese'', ''Japanese'', ''Korean'',
      ''Arabic'', ''Hindi'', ''Portuguese'', ''Russian'', ''Italian'', ''Dutch'', ''Swedish'',
      ''Norwegian'', ''Danish'', ''Finnish'', ''Polish'', ''Turkish'', ''Greek'']"

definition validate_consultant :: "consultantProfile \<Rightarrow> bool" where
  "validate_consultant c \<longleftrightarrow>
     bio c \<noteq> [] \<and> length (bio c) \<le> 1000
     \<and> experience c \<le> 50
     \<and> 10 \<le> hourlyRate c \<and> hourlyRate c \<le> 1000
     \<and> list_all (\<lambda>l. l \<in> set knownLanguages) (languages c)
     \<and> 0 \<le> rating_average c \<and> rating_average c \<le> 5"

definition updateManyCategories :: "objectId list \<Rightarrow> int \<Rightarrow> store \<Rightarrow> store" where
  "updateManyCategories ids k s =
     s\<lparr>categoryColl :=
         map (\<lambda>c. if categoryId c \<in> set ids
                   then c\<lparr>consultantCount := consultantCount c + k\<rparr> else c)
             (categoryColl s)\<rparr>"

definition consultant_pre_save :: "consultantProfile document \<Rightarrow> store \<Rightarrow> store" where
  "consultant_pre_save d s =
     (if isModified d ''categories''
      then let s1 = (case original d of
                       None \<Rightarrow> s
                     | Some c0 \<Rightarrow> updateManyCategories (categories c0) (- 1) s)
           in if categories (doc d) \<noteq> []
              then updateManyCategories (categories (doc d)) 1 s1
              else s1
      else s)"

definition write_consultant :: "consultantProfile document \<Rightarrow> store \<Rightarrow> store" where
  "write_consultant d s =
     (if isNew d then s\<lparr>consultantColl := consultantColl s @ [doc d]\<rparr>
      else s\<lparr>consultantColl :=
                map (\<lambda>x. if consultantId x = consultantId (doc d) then doc d else x)
                    (consultantColl s)\<rparr>)"

definition save_consultant :: "consultantProfile document \<Rightarrow> store \<Rightarrow> error + store" where
  "save_consultant d s =
     (if \<not> validate_consultant (doc d) then Inl ValidationError
      else Inr (write_consultant d (consultant_pre_save d s)))"

text \<open>
  \<open>POST /bookings/:id/rate\<close>. The quotient \<open>totalRating / allRatings.length\<close> is not a
  number the schema accepts when the length is zero, and the save of the consultant then
  fails.
\<close>

definition score_of :: "booking \<Rightarrow> int" where
  "score_of b = (case rating_score b of None \<Rightarrow> 0 | Some n \<Rightarrow> n)"

definition jsDivide :: "int \<Rightarrow> nat \<Rightarrow> rat option" where
  "jsDivide x n = (if n = 0 then None else Some (of_int x / of_nat n))"

definition findRated :: "store \<Rightarrow> objectId \<Rightarrow> booking list" where
  "findRated s c = filter (\<lambda>b. consultant b = c \<and> rating_score b \<noteq> None) (bookingColl s)"

definition rating_doc ::
  "timestamp \<Rightarrow> int \<Rightarrow> string option \<Rightarrow> booking document \<Rightarrow> booking document" where
  "rating_doc now score review booking =
     assign ''rating''
       (\<lambda>b. b\<lparr>rating_score := Some score, rating_review := review,
               rating_createdAt := Some now\<rparr>) booking"

text \<open>The second half of the handler: "Update consultant's average rating".\<close>

definition recompute_rating :: "objectId \<Rightarrow> store \<Rightarrow> response \<times> store" where
  "recompute_rating cid s1 =
     (case findConsultantById s1 cid of
        None \<Rightarrow> ((200, ''Booking rated successfully''), s1)
      | Some c \<Rightarrow>
         let allRatings = findRated s1 cid;
             totalRating = foldl (\<lambda>sum b. sum + score_of b) 0 allRatings
         in (case jsDivide totalRating (length allRatings) of
               None \<Rightarrow> (errorHandler ValidationError, s1)
             | Some average \<Rightarrow>
                let c1 = assign ''rating.average'' (\<lambda>x. x\<lparr>rating_average := average\<rparr>) c;
                    c2 = assign ''rating.count''
                           (\<lambda>x. x\<lparr>rating_count := length allRatings\<rparr>) c1
                in (case save_consultant c2 s1 of
                      Inl e \<Rightarrow> (errorHandler e, s1)
                    | Inr s2 \<Rightarrow> ((200, ''Booking rated successfully''), s2))))"

definition rate_booking ::
  "timestamp \<Rightarrow> user \<Rightarrow> objectId \<Rightarrow> int \<Rightarrow> string option \<Rightarrow> store \<Rightarrow> response \<times> store"
where
  "rate_booking now u i score review s =
     (if \<not> authorizeRoles [Client] u
      then ((403, ''Access denied. Required roles: client''), s)
      else if \<not> (1 \<le> score \<and> score \<le> 5) \<or> \<not> atMost_len 1000 review
      then ((400, ''Validation error''), s)
      else case findBookingById s i of
        None \<Rightarrow> ((404, ''Booking not found''), s)
      | Some booking \<Rightarrow>
          if client (doc booking) \<noteq> userId u then ((403, ''Access denied''), s)
          else if status (doc booking) \<noteq> Completed
          then ((400, ''Can only rate completed bookings''), s)
          else if truthy_num (rating_score (doc booking))
          then ((400, ''Booking has already been rated''), s)
          else
            let b1 = rating_doc now score review booking
            in (case save_booking now b1 s of
                  Inl e \<Rightarrow> (errorHandler e, s)
                | Inr s1 \<Rightarrow> recompute_rating (consultant (doc b1)) s1))"

text \<open>\<open>POST /bookings\<close>.\<close>

record bookingPayload =
  p_consultant :: objectId
  p_category :: objectId
  p_date :: timestamp
  p_startTime :: string
  p_endTime :: string
  p_duration :: nat
  p_totalAmount :: rat
  p_meetingType :: "meeting option"
  p_notes_client :: "string option"

definition create_booking ::
  "timestamp \<Rightarrow> user \<Rightarrow> objectId \<Rightarrow> bookingPayload \<Rightarrow> store \<Rightarrow> response \<times> store"
where
  "create_booking now u newId p s =
     (if \<not> authorizeRoles [Client] u
      then ((403, ''Access denied. Required roles: client''), s)
      else if \<not> (valid_time (p_startTime p) \<and> valid_time (p_endTime p)
                  \<and> 30 \<le> p_duration p \<and> p_duration p \<le> 480
                  \<and> 0 \<le> p_totalAmount p \<and> atMost_len 500 (p_notes_client p))
      then ((400, ''Validation error''), s)
      else
        let booking = created
              [''client'', ''consultant'', ''category'', ''date'', ''startTime'', ''endTime'',
               ''duration'', ''meetingType'', ''notes.client'', ''totalAmount'']
              \<lparr>bookingId = newId, client = userId u, consultant = p_consultant p,
               category = p_category p, date = p_date p, duration = p_duration p,
               startTime = p_startTime p, endTime = p_endTime p, status = Pending,
               totalAmount = p_totalAmount p, notes_client = p_notes_client p,
               notes_consultant = None,
               meetingType = (case p_meetingType p of None \<Rightarrow> Video | Some m \<Rightarrow> m),
               cancellationReason = None, cancelledBy = None, cancelledAt = None,
               completedAt = None, rating_score = None, rating_review = None,
               rating_createdAt = None\<rparr>
        in (case save_booking now booking s of
              Inl e \<Rightarrow> (errorHandler e, s)
            | Inr s' \<Rightarrow> ((201, ''Booking created successfully''), s')))"

text \<open>
  \<open>Booking.checkConflict\<close>: the first booking of the consultant on the date, neither
  cancelled nor no-show, with \<open>startTime < endTime\<close> and \<open>endTime > startTime\<close> of the
  arguments. The store compares the time strings as strings, character by character.
\<close>

definition checkConflict ::
  "store \<Rightarrow> objectId \<Rightarrow> timestamp \<Rightarrow> string \<Rightarrow> string \<Rightarrow> objectId option \<Rightarrow> booking option"
where
  "checkConflict s consultantId' date' startTime' endTime' excludeBookingId =
     find (\<lambda>b. consultant b = consultantId' \<and> date b = date'
                \<and> status b \<notin> set [Cancelled, NoShow]
                \<and> startTime b < endTime' \<and> endTime b > startTime'
                \<and> (case excludeBookingId of None \<Rightarrow> True | Some x \<Rightarrow> bookingId b \<noteq> x))
          (bookingColl s)"

section \<open>Consultant routes\<close>


definition isSpace :: "char \<Rightarrow> bool" where
  "isSpace c \<longleftrightarrow> c \<in> set [CHR '' '', CHR 0x09, CHR 0x0A, CHR 0x0B, CHR 0x0C, CHR 0x0D]"

definition trim :: "string \<Rightarrow> string" where
  "trim s = rev (dropWhile isSpace (rev (dropWhile isSpace s)))"

text \<open>
  The elements of \<open>languages\<close> have the setter \<open>trim\<close> in the schema: each one is trimmed
  when the list is assigned to a document.
\<close>

record consultantPayload =
  cp_categories :: "objectId list"
  cp_bio :: string
  cp_experience :: nat
  cp_hourlyRate :: rat
  cp_languages :: "string list option"

text \<open>\<open>POST /consultants\<close>.\<close>

definition create_consultant ::
  "user \<Rightarrow> objectId \<Rightarrow> consultantPayload \<Rightarrow> store \<Rightarrow> response \<times> store"
where
  "create_consultant u newId p s =
     (if \<not> authorizeRoles [Consultant] u
      then ((403, ''Access denied. Required roles: consultant''), s)
      else if \<not> (1 \<le> length (cp_categories p)
                  \<and> 50 \<le> length (trim (cp_bio p)) \<and> length (trim (cp_bio p)) \<le> 1000
                  \<and> cp_experience p \<le> 50
                  \<and> 10 \<le> cp_hourlyRate p \<and> cp_hourlyRate p \<le> 1000)
      then ((400, ''Validation error''), s)
      else case findConsultantByUser s (userId u) of
        Some existingProfile \<Rightarrow> ((400, ''Consultant profile already exists''), s)
      | None \<Rightarrow>
          let c = created
                [''user'', ''categories'', ''bio'', ''experience'', ''hourlyRate'', ''languages'']
                \<lparr>consultantId = newId, user = userId u, categories = cp_categories p,
                 bio = trim (cp_bio p), experience = cp_experience p,
                 hourlyRate = cp_hourlyRate p,
                 languages = (case cp_languages p of None \<Rightarrow> [] | Some ls \<Rightarrow> map trim ls),
                 rating_average = 0, rating_count = 0, isVerified = False, isActive = True,
                 totalBookings = 0, completedBookings = 0\<rparr>
          in (case save_consultant c s of
                Inl e \<Rightarrow> (errorHandler e, s)
              | Inr s' \<Rightarrow> ((201, ''Consultant profile created successfully''), s')))"

text \<open>
  \<open>PUT /consultants/:id\<close>: every key of the body is assigned to the profile. The keys
  the route validates are modelled.
\<close>

record consultantPatch =
  cq_categories :: "objectId list option"
  cq_bio :: "string option"
  cq_experience :: "nat option"
  cq_hourlyRate :: "rat option"
  cq_languages :: "string list option"
  cq_isActive :: "bool option"

definition patch_valid :: "consultantPatch \<Rightarrow> bool" where
  "patch_valid q =
     ((case cq_categories q of None \<Rightarrow> True | Some cs \<Rightarrow> 1 \<le> length cs)
      \<and> (case cq_bio q of None \<Rightarrow> True
          | Some b \<Rightarrow> 50 \<le> length (trim b) \<and> length (trim b) \<le> 1000)
      \<and> (case cq_experience q of None \<Rightarrow> True | Some e \<Rightarrow> e \<le> 50)
      \<and> (case cq_hourlyRate q of None \<Rightarrow> True | Some r \<Rightarrow> 10 \<le> r \<and> r \<le> 1000))"

definition apply_patch ::
  "consultantPatch \<Rightarrow> consultantProfile document \<Rightarrow> consultantProfile document" where
  "apply_patch q d =
     (let d1 = (case cq_categories q of None \<Rightarrow> d
                | Some cs \<Rightarrow> assign ''categories'' (\<lambda>c. c\<lparr>categories := cs\<rparr>) d);
          d2 = (case cq_bio q of None \<Rightarrow> d1
                | Some b \<Rightarrow> assign ''bio'' (\<lambda>c. c\<lparr>bio := trim b\<rparr>) d1);
          d3 = (case cq_experience q of None \<Rightarrow> d2
                | Some e \<Rightarrow> assign ''experience'' (\<lambda>c. c\<lparr>experience := e\<rparr>) d2);
          d4 = (case cq_hourlyRate q of None \<Rightarrow> d3
                | Some r \<Rightarrow> assign ''hourlyRate'' (\<lambda>c. c\<lparr>hourlyRate := r\<rparr>) d3);
          d5 = (case cq_languages q of None \<Rightarrow> d4
                | Some ls \<Rightarrow> assign ''languages'' (\<lambda>c. c\<lparr>languages := map trim ls\<rparr>) d4)
      in (case cq_isActive q of None \<Rightarrow> d5
          | Some a \<Rightarrow> assign ''isActive'' (\<lambda>c. c\<lparr>isActive := a\<rparr>) d5))"

definition update_consultant ::
  "user \<Rightarrow> objectId \<Rightarrow> consultantPatch \<Rightarrow> store \<Rightarrow> response \<times> store"
where
  "update_consultant u i q s =
     (if \<not> patch_valid q then ((400, ''Validation error''), s)
      else case findConsultantById s i of
        None \<Rightarrow> ((404, ''Consultant not found''), s)
      | Some c \<Rightarrow>
          if role u \<noteq> Admin \<and> user (doc c) \<noteq> userId u then ((403, ''Access denied''), s)
          else (case save_consultant (apply_patch q c) s of
                  Inl e \<Rightarrow> (errorHandler e, s)
                | Inr s' \<Rightarrow> ((200, ''Consultant profile updated successfully''), s')))"

section \<open>Category routes\<close>

definition toUpperCase :: "char \<Rightarrow> char" where
  "toUpperCase c = (if CHR ''a'' \<le> c \<and> c \<le> CHR ''z'' then char_of (of_char c - (32::nat)) else c)"

definition toLowerCase :: "char \<Rightarrow> char" where
  "toLowerCase c = (if CHR ''A'' \<le> c \<and> c \<le> CHR ''Z'' then char_of (of_char c + (32::nat)) else c)"

text \<open>
  The pre-save hook of the category schema:
  \<open>name.charAt(0).toUpperCase() + name.slice(1).toLowerCase()\<close>.
\<close>

definition normalizeName :: "string \<Rightarrow> string" where
  "normalizeName n = map toUpperCase (take 1 n) @ map toLowerCase (drop 1 n)"

definition category_pre_save :: "categoryDoc document \<Rightarrow> categoryDoc document" where
  "category_pre_save d = assign ''name'' (\<lambda>c. c\<lparr>name := normalizeName (name c)\<rparr>) d"













section \<open>Rating aggregate, as the specification words it\<close>

text \<open>
  The scores of the bookings of a consultant that carry a score, the arithmetic mean of a
  list of scores, and the condition of the schema that a stored score lies between 1
  and 5.
\<close>

definition scoresOf :: "store \<Rightarrow> objectId \<Rightarrow> int list" where
  "scoresOf s c =
     List.map_filter (\<lambda>b. if consultant b = c then rating_score b else None) (bookingColl s)"

definition mean :: "int list \<Rightarrow> rat" where
  "mean xs = of_int (sum_list xs) / of_nat (length xs)"

definition scoreInRange :: "booking \<Rightarrow> bool" where
  "scoreInRange b = (case rating_score b of None \<Rightarrow> True | Some n \<Rightarrow> 1 \<le> n \<and> n \<le> 5)"

definition scoresInRange :: "store \<Rightarrow> bool" where
  "scoresInRange s = list_all scoreInRange (bookingColl s)"


text \<open>The minute of the day a time string of the form HH:MM stands for.\<close>

definition clockMinutes :: "string \<Rightarrow> nat" where
  "clockMinutes t = (case parseClock t of None \<Rightarrow> 0 | Some m \<Rightarrow> m)"

text \<open>
  The time of day a string that matches the pattern of the schema stands for, in minutes
  after midnight: the hour is written with one digit or with two. It gives the half-open
  interval of a booking as the specification speaks of it.
\<close>

fun timeOfDay :: "string \<Rightarrow> nat option" where
  "timeOfDay [h, c, m1, m2] =
     (if valid_time [h, c, m1, m2]
      then Some (60 * digitVal h + (10 * digitVal m1 + digitVal m2)) else None)"
| "timeOfDay [h1, h2, c, m1, m2] =
     (if valid_time [h1, h2, c, m1, m2]
      then Some (60 * (10 * digitVal h1 + digitVal h2) + (10 * digitVal m1 + digitVal m2))
      else None)"
| "timeOfDay _ = None"

definition intervalsOverlap :: "string \<Rightarrow> string \<Rightarrow> string \<Rightarrow> string \<Rightarrow> bool" where
  "intervalsOverlap existingStart existingEnd newStart newEnd =
     (case (timeOfDay existingStart, timeOfDay existingEnd, timeOfDay newStart,
            timeOfDay newEnd) of
        (Some a, Some b, Some c, Some d) \<Rightarrow> a < d \<and> c < b
      | _ \<Rightarrow> False)"

text \<open>
  The number of consultant profiles that list a category, which is what the specification
  says \<open>consultantCount\<close> equals.
\<close>

definition consultantsReferencing :: "store \<Rightarrow> objectId \<Rightarrow> int" where
  "consultantsReferencing s cat =
     int (length (filter (\<lambda>c. cat \<in> set (categories c)) (consultantColl s)))"

section \<open>Sample documents\<close>

text \<open>
  A small store on which the operations are run: one consultant (profile 20 of user 11) in
  category 30, and four bookings of client 10 with that consultant: one pending, one
  completed and not rated, and two completed and rated 5 and 3.
\<close>

definition sampleBooking :: "objectId \<Rightarrow> status \<Rightarrow> int option \<Rightarrow> booking" where
  "sampleBooking i st sc =
     \<lparr>bookingId = i, client = 10, consultant = 20, category = 30, date = 1000, duration = 60,
      startTime = ''09:00'', endTime = ''10:00'', status = st, totalAmount = 50,
      notes_client = None, notes_consultant = None, meetingType = Video,
      cancellationReason = None, cancelledBy = None, cancelledAt = None, completedAt = None,
      rating_score = sc, rating_review = None, rating_createdAt = None\<rparr>"

definition sampleConsultant :: consultantProfile where
  "sampleConsultant =
     \<lparr>consultantId = 20, user = 11, categories = [30],
      bio = ''Ten years of practice in business strategy and operations'',
      experience = 10, hourlyRate = 50, languages = [''English''], rating_average = 4,
      rating_count = 2, isVerified = True, isActive = True, totalBookings = 4,
      completedBookings = 0\<rparr>"

definition sampleCategory :: "objectId \<Rightarrow> string \<Rightarrow> int \<Rightarrow> categoryDoc" where
  "sampleCategory i n k =
     \<lparr>categoryId = i, name = n, description = ''Consulting services'', icon = ''fa-briefcase'',
      color = ''#2563EB'', cat_isActive = True, sortOrder = 0, consultantCount = k,
      bookingCount = 0\<rparr>"

definition sampleStore :: store where
  "sampleStore =
     \<lparr>bookingColl = [sampleBooking 1 Pending None, sampleBooking 2 Completed None,
                     sampleBooking 3 Completed (Some 5), sampleBooking 4 Completed (Some 3)],
      consultantColl = [sampleConsultant],
      categoryColl = [sampleCategory 30 ''Businesses'' 1, sampleCategory 31 ''Healthcare'' 0]\<rparr>"

definition clientUser :: user where
  "clientUser = \<lparr>userId = 10, role = Client\<rparr>"

definition consultantUser :: user where
  "consultantUser = \<lparr>userId = 11, role = Consultant\<rparr>"




section \<open>Documents, hooks and saves\<close>

lemma doc_assign [simp]: "doc (assign p f d) = f (doc d)"
  by (simp add: assign_def changes_def)

lemma isNew_assign [simp]: "isNew (assign p f d) = isNew d"
  by (simp add: assign_def)

lemma original_assign [simp]: "original (assign p f d) = original d"
  by (simp add: assign_def)

lemma isModified_assign:
  "isModified (assign p f d) q \<longleftrightarrow> (q = p \<and> changes f d) \<or> isModified d q"
  by (auto simp: assign_def isModified_def)

lemma loaded_simps [simp]:
  "doc (loaded x) = x" "isNew (loaded x) = False" "original (loaded x) = None"
  "isModified (loaded x) q = False"
  by (simp_all add: loaded_def isModified_def)

lemma find_replace:
  "find (\<lambda>x. key x = i) (map (\<lambda>x. if key x = key d then d else x) xs)
     = map_option (\<lambda>x. if key x = key d then d else x) (find (\<lambda>x. key x = i) xs)"
  by (induction xs) auto

lemma endTime_hook_doc:
  "doc (booking_pre_save_endTime s d)
     = (doc d)\<lparr>endTime := endTime (doc (booking_pre_save_endTime s d)),
               totalAmount := totalAmount (doc (booking_pre_save_endTime s d))\<rparr>"
  by (simp add: booking_pre_save_endTime_def Let_def split: option.splits)

lemma endTime_hook_meta [simp]:
  "isNew (booking_pre_save_endTime s d) = isNew d"
  "original (booking_pre_save_endTime s d) = original d"
  by (simp_all add: booking_pre_save_endTime_def Let_def split: option.splits)

lemma endTime_hook_fields [simp]:
  "bookingId (doc (booking_pre_save_endTime s d)) = bookingId (doc d)"
  "client (doc (booking_pre_save_endTime s d)) = client (doc d)"
  "consultant (doc (booking_pre_save_endTime s d)) = consultant (doc d)"
  "status (doc (booking_pre_save_endTime s d)) = status (doc d)"
  "startTime (doc (booking_pre_save_endTime s d)) = startTime (doc d)"
  "duration (doc (booking_pre_save_endTime s d)) = duration (doc d)"
  "cancellationReason (doc (booking_pre_save_endTime s d)) = cancellationReason (doc d)"
  "cancelledBy (doc (booking_pre_save_endTime s d)) = cancelledBy (doc d)"
  "cancelledAt (doc (booking_pre_save_endTime s d)) = cancelledAt (doc d)"
  "completedAt (doc (booking_pre_save_endTime s d)) = completedAt (doc d)"
  "rating_score (doc (booking_pre_save_endTime s d)) = rating_score (doc d)"
  "rating_review (doc (booking_pre_save_endTime s d)) = rating_review (doc d)"
  "rating_createdAt (doc (booking_pre_save_endTime s d)) = rating_createdAt (doc d)"
  by (subst endTime_hook_doc, simp)+

lemma counts_hook_loaded:
  "\<not> isNew d \<Longrightarrow> original d = None \<Longrightarrow> booking_pre_save_counts d s = s"
  by (simp add: booking_pre_save_counts_def)

lemma counts_hook_colls [simp]:
  "bookingColl (booking_pre_save_counts d s) = bookingColl s"
  "categoryColl (booking_pre_save_counts d s) = categoryColl s"
  by (simp_all add: booking_pre_save_counts_def updateConsultantById_def Let_def)

lemma save_booking_loaded:
  assumes "\<not> isNew d" and "original d = None" and "validate_booking now (doc d)"
  shows "save_booking now d s
           = Inr (s\<lparr>bookingColl :=
                      map (\<lambda>x. if bookingId x = bookingId (doc d)
                                then doc (booking_pre_save_endTime s d) else x)
                          (bookingColl s)\<rparr>)"
  using assms
  by (simp add: save_booking_def Let_def counts_hook_loaded write_booking_def)

lemma stored_after_replace:
  assumes "storedBooking s i = Some b" and "bookingId b' = i"
  shows "storedBooking
           (s\<lparr>bookingColl := map (\<lambda>x. if bookingId x = i then b' else x) (bookingColl s)\<rparr>) i
         = Some b'"
proof -
  have "find (\<lambda>x. bookingId x = i)
          (map (\<lambda>x. if bookingId x = bookingId b' then b' else x) (bookingColl s))
        = map_option (\<lambda>x. if bookingId x = bookingId b' then b' else x)
            (find (\<lambda>x. bookingId x = i) (bookingColl s))"
    by (rule find_replace)
  moreover have "bookingId b = i"
    using assms(1) by (auto simp: storedBooking_def find_Some_iff)
  ultimately show ?thesis
    using assms by (simp add: storedBooking_def)
qed

lemma storedBooking_id: "storedBooking s i = Some b \<Longrightarrow> bookingId b = i"
  by (auto simp: storedBooking_def find_Some_iff)



lemma save_booking_loaded_Inr:
  assumes "save_booking now d s = Inr s1" and "\<not> isNew d" and "original d = None"
  shows "s1 = s\<lparr>bookingColl :=
                   map (\<lambda>x. if bookingId x = bookingId (doc d)
                             then doc (booking_pre_save_endTime s d) else x)
                       (bookingColl s)\<rparr>"
proof (cases "validate_booking now (doc d)")
  case True
  then show ?thesis
    using assms save_booking_loaded [of d now s] by simp
next
  case False
  then show ?thesis
    using assms(1) by (simp add: save_booking_def)
qed

lemma consultant_pre_save_bookingColl [simp]:
  "bookingColl (consultant_pre_save d s) = bookingColl s"
  by (simp add: consultant_pre_save_def updateManyCategories_def Let_def split: option.splits)

lemma save_consultant_bookingColl:
  "save_consultant d s = Inr s2 \<Longrightarrow> bookingColl s2 = bookingColl s"
  by (auto simp: save_consultant_def write_consultant_def split: if_splits)

lemma storedBooking_cong:
  "bookingColl s2 = bookingColl s1 \<Longrightarrow> storedBooking s2 i = storedBooking s1 i"
  by (simp add: storedBooking_def)

lemma rate_booking_status:
  assumes b: "storedBooking s i = Some b"
  shows "map_option status (storedBooking (snd (rate_booking now u i score review s)) i)
           = Some (status b)"
proof -
  let ?d = "rating_doc now score review (loaded b)"
  have id: "bookingId b = i" using b by (rule storedBooking_id)
  have meta: "\<not> isNew ?d" "original ?d = None" "bookingId (doc ?d) = i"
    "status (doc ?d) = status b"
    using id by (simp_all add: rating_doc_def)
  have saved: "map_option status (storedBooking s1 i) = Some (status b)"
    if "save_booking now ?d s = Inr s1" for s1
  proof -
    have "s1 = s\<lparr>bookingColl :=
                   map (\<lambda>x. if bookingId x = i
                             then doc (booking_pre_save_endTime s ?d) else x)
                       (bookingColl s)\<rparr>"
      using save_booking_loaded_Inr [OF that meta(1,2)] meta(3) by simp
    then show ?thesis
      using stored_after_replace [OF b, of "doc (booking_pre_save_endTime s ?d)"] meta
      by simp
  qed
  have saved2: "map_option status (storedBooking s2 i) = Some (status b)"
    if "save_booking now ?d s = Inr s1" and "save_consultant c s1 = Inr s2" for s1 s2 c
    using saved [OF that(1)] save_consultant_bookingColl [OF that(2)]
    by (simp add: storedBooking_def)
  have "map_option status (storedBooking (snd (recompute_rating c s1)) i) = Some (status b)"
    if "save_booking now ?d s = Inr s1" for s1 c
    using saved [OF that] saved2 [OF that]
    by (auto simp: recompute_rating_def Let_def split: option.splits sum.splits)
  then show ?thesis
    using b
    by (auto simp: rate_booking_def findBookingById_def Let_def
             split: option.splits sum.splits)
qed


lemma cancel_booking_terminal:
  assumes "storedBooking s i = Some b" and "status b \<in> {Completed, Cancelled, NoShow}"
  shows "snd (cancel_booking now u i reason s) = s"
  using assms by (auto simp: cancel_booking_def findBookingById_def)

lemma status_update_doc_simps [simp]:
  "isNew (status_update_doc now st notes d) = isNew d"
  "original (status_update_doc now st notes d) = original d"
  "bookingId (doc (status_update_doc now st notes d)) = bookingId (doc d)"
  "status (doc (status_update_doc now st notes d)) = st"
  "consultant (doc (status_update_doc now st notes d)) = consultant (doc d)"
  by (simp_all add: status_update_doc_def Let_def)

lemma status_update_doc_valid:
  "validate_booking now b \<Longrightarrow> atMost_len 500 notes
     \<Longrightarrow> validate_booking now (doc (status_update_doc now st notes (loaded b)))"
  by (simp add: validate_booking_def status_update_doc_def Let_def)

lemma errorHandler_not_200 [simp]:
  "errorHandler e \<noteq> (200, m)" "errorHandler e \<noteq> (201, m)"
  by (cases e; simp add: errorHandler_def)+


lemma update_status_unfold:
  assumes "role u = Consultant" and "st \<in> {Confirmed, Completed, Cancelled, NoShow}"
    and "atMost_len 500 notes" and "storedBooking s i = Some b"
    and "profileOfUser s (userId u) = Some c" and "consultantId c = consultant b"
  shows "update_status now u i st notes s
           = (case save_booking now (status_update_doc now st notes (loaded b)) s of
                Inl e \<Rightarrow> (errorHandler e, s)
              | Inr s' \<Rightarrow> ((200, ''Booking status updated successfully''), s'))"
  using assms
  by (simp add: update_status_def findBookingById_def findConsultantByUser_def
        authorizeRoles_def Let_def)

lemma update_status_sets_status:
  assumes "role u = Consultant" and "st \<in> {Confirmed, Completed, Cancelled, NoShow}"
    and "atMost_len 500 notes" and b: "storedBooking s i = Some b"
    and "profileOfUser s (userId u) = Some c" and "consultantId c = consultant b"
    and valid: "validate_booking now b"
  shows "fst (update_status now u i st notes s) = (200, ''Booking status updated successfully'')
         \<and> map_option status (storedBooking (snd (update_status now u i st notes s)) i) = Some st"
proof -
  let ?d = "status_update_doc now st notes (loaded b)"
  have id: "bookingId b = i" using b by (rule storedBooking_id)
  have "save_booking now ?d s
          = Inr (s\<lparr>bookingColl :=
                     map (\<lambda>x. if bookingId x = i then doc (booking_pre_save_endTime s ?d) else x)
                         (bookingColl s)\<rparr>)"
    using save_booking_loaded [of ?d now s] status_update_doc_valid [OF valid assms(3)] id
    by simp
  then show ?thesis
    using update_status_unfold [OF assms(1-6), of now]
      stored_after_replace [OF b, of "doc (booking_pre_save_endTime s ?d)"] id
    by simp
qed

lemma update_status_rejects_pending:
  "snd (update_status now u i Pending notes s) = s"
  by (simp add: update_status_def)


lemma update_status_success_sets_status:
  assumes ok: "fst (update_status now u i st notes s)
                 = (200, ''Booking status updated successfully'')"
  shows "map_option status (storedBooking (snd (update_status now u i st notes s)) i) = Some st"
proof -
  obtain b where b: "storedBooking s i = Some b"
    using ok by (cases "storedBooking s i")
      (auto simp: update_status_def findBookingById_def split: if_splits)
  let ?d = "status_update_doc now st notes (loaded b)"
  have id: "bookingId b = i" using b by (rule storedBooking_id)
  obtain s1 where save: "save_booking now ?d s = Inr s1"
    and run: "update_status now u i st notes s
                = ((200, ''Booking status updated successfully''), s1)"
    using ok b
    by (auto simp: update_status_def findBookingById_def Let_def
             split: if_splits option.splits sum.splits)
  have "s1 = s\<lparr>bookingColl :=
                 map (\<lambda>x. if bookingId x = i then doc (booking_pre_save_endTime s ?d) else x)
                     (bookingColl s)\<rparr>"
    using save_booking_loaded_Inr [OF save] id by simp
  then show ?thesis
    using run stored_after_replace [OF b, of "doc (booking_pre_save_endTime s ?d)"] id
    by simp
qed

section \<open>C1: terminal states\<close>

text \<open>
  C1, as the code has it. The claim is that no operation changes the status of a booking
  that is completed, cancelled or no-show. The client's cancel and rate operations never
  do, and the status update refuses the target \<open>pending\<close>. But the status update has no
  check of the current status: whenever it answers 200, the booking has the requested
  status afterwards, whatever the status was; and it answers 200 when the caller is the
  consultant of the booking, the target is one of confirmed, completed, cancelled,
  no-show, the note has at most 500 characters and the stored booking passes the validators
  of the schema at the time of the call.
\<close>

theorem terminal_status_guarded_for_client_only:
  assumes b: "storedBooking s i = Some b"
    and terminal: "status b \<in> {Completed, Cancelled, NoShow}"
  shows "map_option status (storedBooking (snd (cancel_booking now u i reason s)) i)
           = Some (status b)
       \<and> map_option status (storedBooking (snd (rate_booking now u i score review s)) i)
           = Some (status b)
       \<and> map_option status (storedBooking (snd (update_status now u i Pending cnotes s)) i)
           = Some (status b)
       \<and> (fst (update_status now u i st cnotes s)
             = (200, ''Booking status updated successfully'')
          \<longrightarrow> map_option status (storedBooking (snd (update_status now u i st cnotes s)) i)
                 = Some st)
       \<and> (role u = Consultant \<and> st \<in> {Confirmed, Completed, Cancelled, NoShow}
            \<and> atMost_len 500 cnotes
            \<and> map_option consultantId (profileOfUser s (userId u)) = Some (consultant b)
            \<and> validate_booking now b
          \<longrightarrow> fst (update_status now u i st cnotes s)
                 = (200, ''Booking status updated successfully''))"
proof (intro conjI impI)
  show "map_option status (storedBooking (snd (cancel_booking now u i reason s)) i)
          = Some (status b)"
    using cancel_booking_terminal [OF b terminal] b by simp
  show "map_option status (storedBooking (snd (rate_booking now u i score review s)) i)
          = Some (status b)"
    using b by (rule rate_booking_status)
  show "map_option status (storedBooking (snd (update_status now u i Pending cnotes s)) i)
          = Some (status b)"
    using b by (simp add: update_status_rejects_pending)
next
  assume "fst (update_status now u i st cnotes s)
            = (200, ''Booking status updated successfully'')"
  then show "map_option status (storedBooking (snd (update_status now u i st cnotes s)) i)
               = Some st"
    by (rule update_status_success_sets_status)
next
  assume h: "role u = Consultant \<and> st \<in> {Confirmed, Completed, Cancelled, NoShow}
            \<and> atMost_len 500 cnotes
            \<and> map_option consultantId (profileOfUser s (userId u)) = Some (consultant b)
            \<and> validate_booking now b"
  then obtain c where c: "profileOfUser s (userId u) = Some c" "consultantId c = consultant b"
    by auto
  from h have r: "role u = Consultant" and t: "st \<in> {Confirmed, Completed, Cancelled, NoShow}"
    and n: "atMost_len 500 cnotes" and v: "validate_booking now b"
    by simp_all
  show "fst (update_status now u i st cnotes s) = (200, ''Booking status updated successfully'')"
    using update_status_sets_status [OF r t n b c v] by simp
qed

text \<open>
  C1 as stated fails: booking 2 of the sample store is completed, and the status update
  by its consultant with target cancelled leaves it cancelled.
\<close>

theorem update_status_leaves_completed_counterexample:
  "map_option status (storedBooking sampleStore 2) = Some Completed
   \<and> map_option status
       (storedBooking (snd (update_status 5 consultantUser 2 Cancelled None sampleStore)) 2)
     = Some Cancelled"
  by code_simp

theorem terminal_status_guarded_for_client_only_witness:
  "storedBooking sampleStore 2 = Some (sampleBooking 2 Completed None)
   \<and> status (sampleBooking 2 Completed None) \<in> {Completed, Cancelled, NoShow}
   \<and> validate_booking 5 (sampleBooking 2 Completed None)
   \<and> map_option status (storedBooking (snd (cancel_booking 5 clientUser 2 None sampleStore)) 2)
       = Some Completed
   \<and> map_option status (storedBooking (snd (rate_booking 5 clientUser 2 4 None sampleStore)) 2)
       = Some Completed
   \<and> fst (update_status 5 consultantUser 2 NoShow None sampleStore)
       = (200, ''Booking status updated successfully'')
   \<and> map_option status
        (storedBooking (snd (update_status 5 consultantUser 2 NoShow None sampleStore)) 2)
       = Some NoShow"
proof -
  have h1: "storedBooking sampleStore 2 = Some (sampleBooking 2 Completed None)"
    by code_simp
  have h2: "status (sampleBooking 2 Completed None) \<in> {Completed, Cancelled, NoShow}"
    by (simp add: sampleBooking_def)
  have h3: "role consultantUser = Consultant \<and> NoShow \<in> {Confirmed, Completed, Cancelled, NoShow}
            \<and> atMost_len 500 None
            \<and> map_option consultantId (profileOfUser sampleStore (userId consultantUser))
                = Some (consultant (sampleBooking 2 Completed None))
            \<and> validate_booking 5 (sampleBooking 2 Completed None)"
    by code_simp
  have st: "status (sampleBooking 2 Completed None) = Completed"
    by (simp add: sampleBooking_def)
  show ?thesis
    using terminal_status_guarded_for_client_only
            [OF h1 h2, where now = 5 and u = clientUser and reason = None and score = 4
               and review = None and cnotes = None and st = NoShow]
          terminal_status_guarded_for_client_only
            [OF h1 h2, where now = 5 and u = consultantUser and reason = None and score = 4
               and review = None and cnotes = None and st = NoShow]
          h1 h2 h3 st
    by simp
qed

section \<open>C6: cancellation by the client\<close>

lemma cancel_doc_simps [simp]:
  "isNew (cancel_doc now reason d) = isNew d"
  "original (cancel_doc now reason d) = original d"
  "bookingId (doc (cancel_doc now reason d)) = bookingId (doc d)"
  "status (doc (cancel_doc now reason d)) = Cancelled"
  "cancelledBy (doc (cancel_doc now reason d)) = Some ''client''"
  "cancelledAt (doc (cancel_doc now reason d)) = Some now"
  "cancellationReason (doc (cancel_doc now reason d))
     = (if truthy_str reason then reason else cancellationReason (doc d))"
  by (simp_all add: cancel_doc_def Let_def)

lemma cancel_doc_valid:
  "validate_booking now b \<Longrightarrow> atMost_len 200 reason
     \<Longrightarrow> validate_booking now (doc (cancel_doc now reason (loaded b)))"
  by (simp add: validate_booking_def cancel_doc_def Let_def)

lemma cancel_doc_date_passed:
  "date b \<le> now \<Longrightarrow> \<not> validate_booking now (doc (cancel_doc now reason (loaded b)))"
  by (simp add: validate_booking_def cancel_doc_def Let_def)

lemma cancel_booking_unfold:
  assumes "role u = Client" and "storedBooking s i = Some b" and "client b = userId u"
    and "status b \<in> {Pending, Confirmed}"
  shows "cancel_booking now u i reason s
           = (case save_booking now (cancel_doc now reason (loaded b)) s of
                Inl e \<Rightarrow> (errorHandler e, s)
              | Inr s' \<Rightarrow> ((200, ''Booking cancelled successfully''), s'))"
  using assms
  by (auto simp: cancel_booking_def findBookingById_def authorizeRoles_def Let_def)

lemma cancel_booking_success:
  assumes r: "role u = Client" and b: "storedBooking s i = Some b" and o: "client b = userId u"
    and st: "status b \<in> {Pending, Confirmed}" and len: "atMost_len 200 reason"
    and valid: "validate_booking now b"
  shows "fst (cancel_booking now u i reason s) = (200, ''Booking cancelled successfully'')
         \<and> storedBooking (snd (cancel_booking now u i reason s)) i
             = Some (doc (booking_pre_save_endTime s (cancel_doc now reason (loaded b))))"
proof -
  let ?d = "cancel_doc now reason (loaded b)"
  have id: "bookingId b = i" using b by (rule storedBooking_id)
  have "save_booking now ?d s
          = Inr (s\<lparr>bookingColl :=
                     map (\<lambda>x. if bookingId x = i then doc (booking_pre_save_endTime s ?d) else x)
                         (bookingColl s)\<rparr>)"
    using save_booking_loaded [of ?d now s] cancel_doc_valid [OF valid len] id
    by simp
  then show ?thesis
    using cancel_booking_unfold [OF r b o st, of now reason]
      stored_after_replace [OF b, of "doc (booking_pre_save_endTime s ?d)"] id
    by simp
qed

lemma cancel_booking_failure:
  assumes b: "storedBooking s i = Some b"
    and "\<not> (role u = Client \<and> client b = userId u \<and> status b \<in> {Pending, Confirmed})"
  shows "snd (cancel_booking now u i reason s) = s
         \<and> fst (cancel_booking now u i reason s) \<noteq> (200, ''Booking cancelled successfully'')
         \<and> (role u = Client \<and> client b = userId u
              \<longrightarrow> fst (cancel_booking now u i reason s)
                    = (400, ''Booking cannot be cancelled in its current status''))
         \<and> (role u = Client \<and> client b \<noteq> userId u
              \<longrightarrow> fst (cancel_booking now u i reason s) = (403, ''Access denied''))"
  using assms
  by (auto simp: cancel_booking_def findBookingById_def authorizeRoles_def)

text \<open>
  What the handler does while the stored booking passes the validators of the schema, in
  particular while its date is after the clock: it succeeds exactly when the caller has
  the client role, is the client of the booking, and the status is pending or confirmed;
  the booking is then cancelled by \<open>client\<close> at the time of the call, and a reason that is
  not empty is stored. From completed, cancelled and no-show it answers 400, and whenever
  it does not succeed the store is unchanged.
\<close>

lemma cancel_booking_while_valid:
  assumes b: "storedBooking s i = Some b" and len: "atMost_len 200 reason"
    and valid: "validate_booking now b"
  shows "(fst (cancel_booking now u i reason s) = (200, ''Booking cancelled successfully'')
            \<longleftrightarrow> role u = Client \<and> client b = userId u \<and> status b \<in> {Pending, Confirmed})
       \<and> (role u = Client \<and> client b = userId u \<and> status b \<in> {Pending, Confirmed}
            \<longrightarrow> (\<exists>b'. storedBooking (snd (cancel_booking now u i reason s)) i = Some b'
                      \<and> status b' = Cancelled \<and> cancelledBy b' = Some ''client''
                      \<and> cancelledAt b' = Some now
                      \<and> cancellationReason b'
                          = (if truthy_str reason then reason else cancellationReason b)))
       \<and> (role u = Client \<and> client b = userId u \<and> status b \<in> {Completed, Cancelled, NoShow}
            \<longrightarrow> fst (cancel_booking now u i reason s)
                  = (400, ''Booking cannot be cancelled in its current status''))
       \<and> (fst (cancel_booking now u i reason s) \<noteq> (200, ''Booking cancelled successfully'')
            \<longrightarrow> snd (cancel_booking now u i reason s) = s)"
proof (cases "role u = Client \<and> client b = userId u \<and> status b \<in> {Pending, Confirmed}")
  case True
  then have r: "role u = Client" and o: "client b = userId u"
    and st: "status b \<in> {Pending, Confirmed}"
    by simp_all
  note ok = cancel_booking_success [OF r b o st len valid]
  have "status b \<notin> {Completed, Cancelled, NoShow}"
    using st by auto
  then show ?thesis
    using True ok by simp
next
  case False
  note bad = cancel_booking_failure [OF b False, of now reason]
  have "status b \<in> {Completed, Cancelled, NoShow} \<or> status b \<in> {Pending, Confirmed}"
    by (cases "status b") simp_all
  then show ?thesis
    using False bad by auto
qed

text \<open>
  Once the date of the booking is not after the clock, the save of the cancelled booking
  fails on the validator of \<open>date\<close>, whoever calls and whatever the status: the handler
  never answers 200 and the store is unchanged.
\<close>

lemma cancel_booking_date_passed:
  assumes b: "storedBooking s i = Some b" and past: "date b \<le> now"
  shows "fst (cancel_booking now u i reason s) \<noteq> (200, ''Booking cancelled successfully'')
         \<and> snd (cancel_booking now u i reason s) = s"
proof -
  have "save_booking now (cancel_doc now reason (loaded b)) s = Inl ValidationError"
    using cancel_doc_date_passed [OF past] by (simp add: save_booking_def)
  then show ?thesis
    using b by (auto simp: cancel_booking_def findBookingById_def Let_def)
qed

text \<open>
  C6 on the code. Booking 1 of the sample store is pending, belongs to client 10 and has
  the date 1000. Client 10 cancels it with the reason \<open>schedule conflict\<close>. At time 5 the
  call succeeds, as the claim says. At time 2000, after the date of the booking, all the
  conditions of the claim hold as well, but the save of the booking runs the validator of
  \<open>date\<close> (the date must be after the clock) again and fails: the handler does not
  succeed and the booking is still pending.
\<close>

theorem cancel_refused_after_booking_date:
  "storedBooking sampleStore 1 = Some (sampleBooking 1 Pending None)
   \<and> date (sampleBooking 1 Pending None) = 1000
   \<and> client (sampleBooking 1 Pending None) = userId clientUser
   \<and> role clientUser = Client
   \<and> atMost_len 200 (Some ''schedule conflict'')
   \<and> fst (cancel_booking 5 clientUser 1 (Some ''schedule conflict'') sampleStore)
       = (200, ''Booking cancelled successfully'')
   \<and> save_booking 2000
        (cancel_doc 2000 (Some ''schedule conflict'') (loaded (sampleBooking 1 Pending None)))
        sampleStore
       = Inl ValidationError
   \<and> cancel_booking 2000 clientUser 1 (Some ''schedule conflict'') sampleStore
       = (errorHandler ValidationError, sampleStore)
   \<and> map_option status
        (storedBooking
           (snd (cancel_booking 2000 clientUser 1 (Some ''schedule conflict'') sampleStore)) 1)
       = Some Pending"
  by code_simp

theorem cancel_refused_after_booking_date_witness:
  "fst (cancel_booking 2000 clientUser 1 (Some ''schedule conflict'') sampleStore)
     \<noteq> (200, ''Booking cancelled successfully'')
   \<and> snd (cancel_booking 2000 clientUser 1 (Some ''schedule conflict'') sampleStore)
       = sampleStore"
  using cancel_refused_after_booking_date by simp

section \<open>Rating: the guards and the aggregate\<close>

lemma rating_doc_simps [simp]:
  "isNew (rating_doc now score review d) = isNew d"
  "original (rating_doc now score review d) = original d"
  "bookingId (doc (rating_doc now score review d)) = bookingId (doc d)"
  "status (doc (rating_doc now score review d)) = status (doc d)"
  "client (doc (rating_doc now score review d)) = client (doc d)"
  "consultant (doc (rating_doc now score review d)) = consultant (doc d)"
  "rating_score (doc (rating_doc now score review d)) = Some score"
  by (simp_all add: rating_doc_def)

lemma rating_doc_valid:
  "validate_booking now b \<Longrightarrow> 1 \<le> score \<Longrightarrow> score \<le> 5 \<Longrightarrow> atMost_len 1000 review
     \<Longrightarrow> validate_booking now (doc (rating_doc now score review (loaded b)))"
  by (simp add: validate_booking_def rating_doc_def)

lemma rating_doc_date_passed:
  "date b \<le> now \<Longrightarrow> \<not> validate_booking now (doc (rating_doc now score review (loaded b)))"
  by (simp add: validate_booking_def rating_doc_def)

lemma foldl_score_sum:
  "foldl (\<lambda>sum b. sum + score_of b) a xs = a + sum_list (map score_of xs)"
  by (induction xs arbitrary: a) simp_all

lemma scores_of_rated: "map score_of (findRated s c) = scoresOf s c"
proof -
  have "map score_of (filter (\<lambda>b. consultant b = c \<and> rating_score b \<noteq> None) xs)
          = List.map_filter (\<lambda>b. if consultant b = c then rating_score b else None) xs" for xs
    by (induction xs) (auto simp: List.map_filter_simps score_of_def)
  then show ?thesis
    by (simp add: findRated_def scoresOf_def)
qed

lemma sum_scores_bounds:
  assumes "\<forall>b \<in> set xs. 1 \<le> score_of b \<and> score_of b \<le> 5"
  shows "int (length xs) \<le> sum_list (map score_of xs)
         \<and> sum_list (map score_of xs) \<le> 5 * int (length xs)"
  using assms by (induction xs) auto

lemma findRated_in_range:
  assumes "scoresInRange s" and "b \<in> set (findRated s c)"
  shows "1 \<le> score_of b \<and> score_of b \<le> 5"
  using assms
  by (auto simp: scoresInRange_def findRated_def list_all_iff scoreInRange_def score_of_def
           split: option.splits)

lemma mean_bounds:
  assumes "xs \<noteq> []" and "int (length xs) \<le> sum_list xs" and "sum_list xs \<le> 5 * int (length xs)"
  shows "1 \<le> mean xs \<and> mean xs \<le> 5"
proof -
  have pos: "(0::rat) < of_nat (length xs)" using assms(1) by simp
  have "(of_nat (length xs) :: rat) \<le> of_int (sum_list xs)"
    using assms(2) by (metis of_int_le_iff of_int_of_nat_eq)
  moreover have "(of_int (sum_list xs) :: rat) \<le> 5 * of_nat (length xs)"
    using assms(3) by (metis of_int_le_iff of_int_of_nat_eq of_int_mult of_int_numeral)
  ultimately show ?thesis
    using pos by (simp add: mean_def pos_le_divide_eq pos_divide_le_eq)
qed

lemma storedConsultant_id: "storedConsultant s i = Some c \<Longrightarrow> consultantId c = i"
  by (auto simp: storedConsultant_def find_Some_iff)

lemma stored_consultant_after_replace:
  assumes "storedConsultant s i = Some c" and "consultantId c' = i"
  shows "storedConsultant
           (s\<lparr>consultantColl :=
                map (\<lambda>x. if consultantId x = i then c' else x) (consultantColl s)\<rparr>) i
         = Some c'"
proof -
  have "find (\<lambda>x. consultantId x = i)
          (map (\<lambda>x. if consultantId x = consultantId c' then c' else x) (consultantColl s))
        = map_option (\<lambda>x. if consultantId x = consultantId c' then c' else x)
            (find (\<lambda>x. consultantId x = i) (consultantColl s))"
    by (rule find_replace)
  then show ?thesis
    using assms storedConsultant_id [OF assms(1)] by (simp add: storedConsultant_def)
qed

lemma save_rating_fields:
  assumes "validate_consultant c" and "0 \<le> a" and "a \<le> 5"
  shows "save_consultant
           (assign ''rating.count'' (\<lambda>x. x\<lparr>rating_count := n\<rparr>)
              (assign ''rating.average'' (\<lambda>x. x\<lparr>rating_average := a\<rparr>) (loaded c))) s
         = Inr (s\<lparr>consultantColl :=
                    map (\<lambda>x. if consultantId x = consultantId c
                              then c\<lparr>rating_average := a, rating_count := n\<rparr> else x)
                        (consultantColl s)\<rparr>)"
  using assms
  by (simp add: save_consultant_def validate_consultant_def Let_def
        isModified_assign consultant_pre_save_def write_consultant_def)

lemma recompute_rating_result:
  assumes ne: "findRated s1 cid \<noteq> []" and inv: "scoresInRange s1"
    and cv: "\<And>c. storedConsultant s1 cid = Some c \<Longrightarrow> validate_consultant c"
  shows "fst (recompute_rating cid s1) = (200, ''Booking rated successfully'')
       \<and> bookingColl (snd (recompute_rating cid s1)) = bookingColl s1
       \<and> categoryColl (snd (recompute_rating cid s1)) = categoryColl s1
       \<and> (\<forall>c. storedConsultant s1 cid = Some c \<longrightarrow>
             storedConsultant (snd (recompute_rating cid s1)) cid
               = Some (c\<lparr>rating_average := mean (scoresOf s1 cid),
                         rating_count := length (scoresOf s1 cid)\<rparr>))"
proof (cases "storedConsultant s1 cid")
  case None
  then show ?thesis
    by (simp add: recompute_rating_def findConsultantById_def)
next
  case (Some c)
  let ?xs = "scoresOf s1 cid"
  have xs: "map score_of (findRated s1 cid) = ?xs" by (rule scores_of_rated)
  have len: "length (findRated s1 cid) = length ?xs"
    using xs by (metis length_map)
  have xne: "?xs \<noteq> []" using ne xs by (metis map_is_Nil_conv)
  have rng: "\<forall>b \<in> set (findRated s1 cid). 1 \<le> score_of b \<and> score_of b \<le> 5"
    using findRated_in_range [OF inv] by blast
  have bounds: "int (length ?xs) \<le> sum_list ?xs \<and> sum_list ?xs \<le> 5 * int (length ?xs)"
    using sum_scores_bounds [OF rng] xs len by simp
  have m: "1 \<le> mean ?xs \<and> mean ?xs \<le> 5"
    using mean_bounds [OF xne] bounds by simp
  have div: "jsDivide (foldl (\<lambda>sum b. sum + score_of b) 0 (findRated s1 cid))
               (length (findRated s1 cid)) = Some (mean ?xs)"
    using xne by (simp add: jsDivide_def foldl_score_sum xs len mean_def)
  have save: "save_consultant
           (assign ''rating.count'' (\<lambda>x. x\<lparr>rating_count := length ?xs\<rparr>)
              (assign ''rating.average'' (\<lambda>x. x\<lparr>rating_average := mean ?xs\<rparr>) (loaded c))) s1
         = Inr (s1\<lparr>consultantColl :=
                    map (\<lambda>x. if consultantId x = consultantId c
                              then c\<lparr>rating_average := mean ?xs, rating_count := length ?xs\<rparr>
                              else x)
                        (consultantColl s1)\<rparr>)"
    using m cv [OF Some] by (intro save_rating_fields) simp_all
  have r: "recompute_rating cid s1
         = ((200, ''Booking rated successfully''),
            s1\<lparr>consultantColl :=
                    map (\<lambda>x. if consultantId x = consultantId c
                              then c\<lparr>rating_average := mean ?xs, rating_count := length ?xs\<rparr>
                              else x)
                        (consultantColl s1)\<rparr>)"
    using Some div save
    by (simp add: recompute_rating_def findConsultantById_def Let_def len)
  have cid: "consultantId c = cid" using Some by (rule storedConsultant_id)
  show ?thesis
    using r Some cid
      stored_consultant_after_replace
        [OF Some, of "c\<lparr>rating_average := mean ?xs, rating_count := length ?xs\<rparr>"]
    by simp
qed

lemma storedBooking_mem: "storedBooking s i = Some b \<Longrightarrow> b \<in> set (bookingColl s)"
  by (auto simp: storedBooking_def find_Some_iff)

lemma rate_booking_guards_pass:
  assumes r: "role u = Client" and v: "1 \<le> score" "score \<le> 5" "atMost_len 1000 review"
    and b: "storedBooking s i = Some b" and o: "client b = userId u"
    and st: "status b = Completed" and un: "\<not> truthy_num (rating_score b)"
    and valid: "validate_booking now b"
  shows "\<exists>b1. bookingId b1 = i \<and> consultant b1 = consultant b \<and> client b1 = client b
              \<and> status b1 = status b \<and> rating_score b1 = Some score
              \<and> rate_booking now u i score review s
                  = recompute_rating (consultant b)
                      (s\<lparr>bookingColl :=
                           map (\<lambda>x. if bookingId x = i then b1 else x) (bookingColl s)\<rparr>)"
proof -
  let ?d = "rating_doc now score review (loaded b)"
  let ?b1 = "doc (booking_pre_save_endTime s ?d)"
  have id: "bookingId b = i" using b by (rule storedBooking_id)
  have save: "save_booking now ?d s
          = Inr (s\<lparr>bookingColl := map (\<lambda>x. if bookingId x = i then ?b1 else x) (bookingColl s)\<rparr>)"
    using save_booking_loaded [of ?d now s] rating_doc_valid [OF valid v] id
    by simp
  have "rate_booking now u i score review s
          = recompute_rating (consultant b)
              (s\<lparr>bookingColl := map (\<lambda>x. if bookingId x = i then ?b1 else x) (bookingColl s)\<rparr>)"
    using r v b o st un save
    by (simp add: rate_booking_def findBookingById_def authorizeRoles_def Let_def)
  moreover have "bookingId ?b1 = i \<and> consultant ?b1 = consultant b \<and> client ?b1 = client b
              \<and> status ?b1 = status b \<and> rating_score ?b1 = Some score"
    using id by simp
  ultimately show ?thesis by blast
qed

lemma rated_after_replace:
  assumes "b \<in> set (bookingColl s)" and "bookingId b = i" and "bookingId b1 = i"
    and "consultant b1 = c" and "rating_score b1 = Some n"
  shows "findRated (s\<lparr>bookingColl := map (\<lambda>x. if bookingId x = i then b1 else x) (bookingColl s)\<rparr>) c
           \<noteq> []"
proof -
  have "b1 \<in> set (map (\<lambda>x. if bookingId x = i then b1 else x) (bookingColl s))"
    using assms(1,2) by force
  then show ?thesis
    using assms(4,5) by (auto simp: findRated_def filter_empty_conv)
qed

lemma scoresInRange_replace:
  assumes "scoresInRange s" and "rating_score b1 = Some n" and "1 \<le> n" and "n \<le> 5"
  shows "scoresInRange
           (s\<lparr>bookingColl := map (\<lambda>x. if bookingId x = i then b1 else x) (bookingColl s)\<rparr>)"
  using assms by (auto simp: scoresInRange_def list_all_iff scoreInRange_def)

lemma rate_already_rated:
  assumes "role u = Client" and "1 \<le> score" "score \<le> 5" "atMost_len 1000 review"
    and "storedBooking s i = Some b" and "client b = userId u"
    and "status b = Completed" and "truthy_num (rating_score b)"
  shows "rate_booking now u i score review s = ((400, ''Booking has already been rated''), s)"
  using assms
  by (simp add: rate_booking_def findBookingById_def authorizeRoles_def)

lemma rate_booking_refused:
  assumes b: "storedBooking s i = Some b"
    and v: "1 \<le> score" "score \<le> 5" "atMost_len 1000 review"
    and "\<not> (role u = Client \<and> client b = userId u \<and> status b = Completed
             \<and> \<not> truthy_num (rating_score b))"
  shows "snd (rate_booking now u i score review s) = s
       \<and> fst (rate_booking now u i score review s) \<noteq> (200, ''Booking rated successfully'')
       \<and> (client b \<noteq> userId u \<longrightarrow> fst (fst (rate_booking now u i score review s)) = 403)
       \<and> (role u = Client \<and> client b = userId u \<and> status b \<noteq> Completed
           \<longrightarrow> fst (rate_booking now u i score review s)
                 = (400, ''Can only rate completed bookings''))
       \<and> (role u = Client \<and> client b = userId u \<and> status b = Completed
           \<longrightarrow> fst (rate_booking now u i score review s)
                 = (400, ''Booking has already been rated''))"
  using assms
  by (auto simp: rate_booking_def findBookingById_def authorizeRoles_def)

lemma rate_booking_accepted:
  assumes r: "role u = Client" and v: "1 \<le> score" "score \<le> 5" "atMost_len 1000 review"
    and b: "storedBooking s i = Some b" and o: "client b = userId u"
    and st: "status b = Completed" and un: "\<not> truthy_num (rating_score b)"
    and inv: "scoresInRange s"
    and valid: "validate_booking now b"
    and cv: "\<And>c. storedConsultant s (consultant b) = Some c \<Longrightarrow> validate_consultant c"
  shows "\<exists>b1. fst (rate_booking now u i score review s) = (200, ''Booking rated successfully'')
          \<and> storedBooking (snd (rate_booking now u i score review s)) i = Some b1
          \<and> client b1 = client b \<and> status b1 = status b \<and> consultant b1 = consultant b
          \<and> rating_score b1 = Some score
          \<and> findRated (snd (rate_booking now u i score review s)) (consultant b) \<noteq> []
          \<and> scoresInRange (snd (rate_booking now u i score review s))
          \<and> (\<forall>c. storedConsultant s (consultant b) = Some c \<longrightarrow>
                storedConsultant (snd (rate_booking now u i score review s)) (consultant b)
                  = Some (c\<lparr>rating_average :=
                              mean (scoresOf (snd (rate_booking now u i score review s))
                                      (consultant b)),
                            rating_count :=
                              length (scoresOf (snd (rate_booking now u i score review s))
                                        (consultant b))\<rparr>))"
proof -
  obtain b1 where b1: "bookingId b1 = i" "consultant b1 = consultant b" "client b1 = client b"
      "status b1 = status b" "rating_score b1 = Some score"
    and run: "rate_booking now u i score review s
                = recompute_rating (consultant b)
                    (s\<lparr>bookingColl :=
                         map (\<lambda>x. if bookingId x = i then b1 else x) (bookingColl s)\<rparr>)"
    using rate_booking_guards_pass [OF r v b o st un valid] by blast
  let ?s1 = "s\<lparr>bookingColl := map (\<lambda>x. if bookingId x = i then b1 else x) (bookingColl s)\<rparr>"
  let ?s2 = "snd (recompute_rating (consultant b) ?s1)"
  have id: "bookingId b = i" using b by (rule storedBooking_id)
  have ne: "findRated ?s1 (consultant b) \<noteq> []"
    using rated_after_replace [OF storedBooking_mem [OF b] id b1(1,2,5)] .
  have inv1: "scoresInRange ?s1"
    using scoresInRange_replace [OF inv b1(5) v(1,2)] .
  have sc: "storedConsultant ?s1 (consultant b) = storedConsultant s (consultant b)"
    by (simp add: storedConsultant_def)
  have cv1: "validate_consultant c" if "storedConsultant ?s1 (consultant b) = Some c" for c
    using that sc cv by simp
  note res = recompute_rating_result [OF ne inv1 cv1]
  have bc: "bookingColl ?s2 = bookingColl ?s1" using res by simp
  have sb: "storedBooking ?s2 i = Some b1"
    using stored_after_replace [OF b b1(1)] bc by (simp add: storedBooking_def)
  have fr: "findRated ?s2 (consultant b) = findRated ?s1 (consultant b)"
    using bc by (simp add: findRated_def)
  have so: "scoresOf ?s2 (consultant b) = scoresOf ?s1 (consultant b)"
    using bc by (simp add: scoresOf_def)
  have inv2: "scoresInRange ?s2"
    using inv1 bc by (simp add: scoresInRange_def)
  show ?thesis
    unfolding run
    apply (rule exI [of _ b1])
    using res sb b1 ne fr so inv2 sc
    by simp
qed


section \<open>C5 and C4: the rate operation\<close>

lemma recompute_rating_bookingColl [simp]:
  "bookingColl (snd (recompute_rating cid s1)) = bookingColl s1"
  by (auto simp: recompute_rating_def Let_def save_consultant_bookingColl
           split: option.splits sum.splits)

lemma rate_success_guards:
  assumes "fst (rate_booking now u i score review s) = (200, ''Booking rated successfully'')"
    and "storedBooking s i = Some b"
  shows "role u = Client \<and> 1 \<le> score \<and> score \<le> 5 \<and> atMost_len 1000 review
         \<and> client b = userId u \<and> status b = Completed \<and> \<not> truthy_num (rating_score b)"
  using assms
  by (auto simp: rate_booking_def findBookingById_def authorizeRoles_def
           split: if_splits)

lemma rate_booking_unfold:
  assumes "role u = Client" and "1 \<le> score" "score \<le> 5" "atMost_len 1000 review"
    and "storedBooking s i = Some b" and "client b = userId u"
    and "status b = Completed" and "\<not> truthy_num (rating_score b)"
  shows "rate_booking now u i score review s
           = (case save_booking now (rating_doc now score review (loaded b)) s of
                Inl e \<Rightarrow> (errorHandler e, s)
              | Inr s1 \<Rightarrow> recompute_rating (consultant b) s1)"
  using assms
  by (simp add: rate_booking_def findBookingById_def authorizeRoles_def Let_def
           split: sum.splits)

lemma rate_success_run:
  assumes ok: "fst (rate_booking now u i score review s) = (200, ''Booking rated successfully'')"
    and b: "storedBooking s i = Some b"
  shows "\<exists>b1. bookingId b1 = i \<and> rating_score b1 = Some score
           \<and> save_booking now (rating_doc now score review (loaded b)) s
               = Inr (s\<lparr>bookingColl :=
                          map (\<lambda>x. if bookingId x = i then b1 else x) (bookingColl s)\<rparr>)
           \<and> rate_booking now u i score review s
               = recompute_rating (consultant b)
                   (s\<lparr>bookingColl :=
                        map (\<lambda>x. if bookingId x = i then b1 else x) (bookingColl s)\<rparr>)"
proof -
  let ?d = "rating_doc now score review (loaded b)"
  let ?b1 = "doc (booking_pre_save_endTime s ?d)"
  have g: "role u = Client" "1 \<le> score" "score \<le> 5" "atMost_len 1000 review"
    "client b = userId u" "status b = Completed" "\<not> truthy_num (rating_score b)"
    using rate_success_guards [OF ok b] by simp_all
  note run = rate_booking_unfold [OF g(1-4) b g(5-7), of now]
  have id: "bookingId b = i" using b by (rule storedBooking_id)
  obtain s1 where save: "save_booking now ?d s = Inr s1"
    using ok run by (cases "save_booking now ?d s") simp_all
  have s1: "s1 = s\<lparr>bookingColl :=
                     map (\<lambda>x. if bookingId x = i then ?b1 else x) (bookingColl s)\<rparr>"
    using save_booking_loaded_Inr [OF save] id by simp
  have "bookingId ?b1 = i \<and> rating_score ?b1 = Some score"
    using id by simp
  then show ?thesis
    using run save s1 by (intro exI [of _ ?b1]) simp
qed

lemma recompute_rating_success:
  assumes ok: "fst (recompute_rating cid s1) = (200, ''Booking rated successfully'')"
    and c: "storedConsultant s1 cid = Some c"
  shows "storedConsultant (snd (recompute_rating cid s1)) cid
           = Some (c\<lparr>rating_average := mean (scoresOf s1 cid),
                     rating_count := length (scoresOf s1 cid)\<rparr>)"
proof -
  let ?xs = "scoresOf s1 cid"
  let ?n = "length (findRated s1 cid)"
  let ?t = "foldl (\<lambda>sum b. sum + score_of b) 0 (findRated s1 cid)"
  let ?d = "\<lambda>a. assign ''rating.count'' (\<lambda>x. x\<lparr>rating_count := ?n\<rparr>)
              (assign ''rating.average'' (\<lambda>x. x\<lparr>rating_average := a\<rparr>) (loaded c))"
  have xs: "map score_of (findRated s1 cid) = ?xs" by (rule scores_of_rated)
  have len: "?n = length ?xs" using xs by (metis length_map)
  obtain a s2 where a: "jsDivide ?t ?n = Some a" and s2: "save_consultant (?d a) s1 = Inr s2"
    and r: "recompute_rating cid s1 = ((200, ''Booking rated successfully''), s2)"
    using ok c
    by (auto simp: recompute_rating_def findConsultantById_def Let_def
             split: option.splits sum.splits)
  have am: "a = mean ?xs"
    using a by (auto simp: jsDivide_def foldl_score_sum xs len mean_def split: if_splits)
  have "s2 = s1\<lparr>consultantColl :=
                   map (\<lambda>x. if consultantId x = consultantId c
                             then c\<lparr>rating_average := a, rating_count := ?n\<rparr> else x)
                       (consultantColl s1)\<rparr>"
    using s2
    by (auto simp: save_consultant_def consultant_pre_save_def write_consultant_def
          isModified_assign split: if_splits)
  then show ?thesis
    using r am len storedConsultant_id [OF c]
      stored_consultant_after_replace
        [OF c, of "c\<lparr>rating_average := a, rating_count := ?n\<rparr>"]
    by simp
qed

lemma truthy_in_range:
  "scoreInRange b \<Longrightarrow> truthy_num (rating_score b) \<longleftrightarrow> rating_score b \<noteq> None"
  by (auto simp: scoreInRange_def truthy_num_def split: option.splits)

lemma stored_in_range:
  "scoresInRange s \<Longrightarrow> storedBooking s i = Some b \<Longrightarrow> scoreInRange b"
  using storedBooking_mem [of s i b] by (auto simp: scoresInRange_def list_all_iff)

lemma sample_facts:
  "storedBooking sampleStore 2 = Some (sampleBooking 2 Completed None)"
  "storedConsultant sampleStore 20 = Some sampleConsultant"
  "scoresInRange sampleStore"
  "role clientUser = Client" "userId clientUser = 10"
  "client (sampleBooking 2 Completed None) = 10"
  "status (sampleBooking 2 Completed None) = Completed"
  "consultant (sampleBooking 2 Completed None) = 20"
  "rating_score (sampleBooking 2 Completed None) = None"
  "validate_booking 5 (sampleBooking 2 Completed None)"
  "validate_consultant sampleConsultant"
  by code_simp+

text \<open>
  What the handler does while the stored booking and the profile of its consultant pass
  the validators of their schemas, in particular while the date of the booking is after
  the clock. For a request body that passes validation and a store whose scores satisfy
  the schema, the rate operation succeeds exactly when the caller has the client role, is
  the client of the booking, the booking is completed and it carries no score. The client
  gets 400 for a booking that is not completed and 400 for one that is already rated.
\<close>

lemma rate_booking_while_valid:
  assumes b: "storedBooking s i = Some b"
    and v: "1 \<le> score" "score \<le> 5" "atMost_len 1000 review"
    and inv: "scoresInRange s"
    and valid: "validate_booking now b"
    and cv: "\<And>c. storedConsultant s (consultant b) = Some c \<Longrightarrow> validate_consultant c"
  shows "(fst (rate_booking now u i score review s) = (200, ''Booking rated successfully'')
            \<longleftrightarrow> role u = Client \<and> client b = userId u \<and> status b = Completed
                 \<and> rating_score b = None)
       \<and> (fst (rate_booking now u i score review s) = (200, ''Booking rated successfully'')
            \<longrightarrow> map_option rating_score
                   (storedBooking (snd (rate_booking now u i score review s)) i)
                  = Some (Some score))"
proof (cases "role u = Client \<and> client b = userId u \<and> status b = Completed
              \<and> rating_score b = None")
  case True
  then have r: "role u = Client" and o: "client b = userId u" and st: "status b = Completed"
    and un: "\<not> truthy_num (rating_score b)"
    by (simp_all add: truthy_num_def)
  let ?s' = "snd (rate_booking now u i score review s)"
  obtain b1 where ok: "fst (rate_booking now u i score review s)
                         = (200, ''Booking rated successfully'')"
    and sb: "storedBooking ?s' i = Some b1"
    and f: "client b1 = client b" "status b1 = status b" "rating_score b1 = Some score"
    using rate_booking_accepted [OF r v b o st un inv valid cv] by blast
  show ?thesis
    using True ok sb f by simp
next
  case False
  have t: "truthy_num (rating_score b) \<longleftrightarrow> rating_score b \<noteq> None"
    using truthy_in_range [OF stored_in_range [OF inv b]] .
  have "\<not> (role u = Client \<and> client b = userId u \<and> status b = Completed
            \<and> \<not> truthy_num (rating_score b))"
    using False t by simp
  note bad = rate_booking_refused [OF b v this, of now]
  show ?thesis
    using False bad by auto
qed

text \<open>
  The refusals of the handler do not depend on the clock: for a request body that passes
  validation, a caller who is not the client of the booking gets 403, the client gets 400
  for a booking that is not completed and 400 for one that carries a score other than 0,
  and in the last two cases the store, and so the rating, is unchanged. So after a call
  that has stored a score from 1 to 5, every further valid rate call of the client on the
  same booking answers 400, already rated, and changes nothing.
\<close>

lemma rate_booking_refusals:
  assumes b: "storedBooking s i = Some b"
    and v: "1 \<le> score" "score \<le> 5" "atMost_len 1000 review"
  shows "(client b \<noteq> userId u \<longrightarrow> fst (fst (rate_booking now u i score review s)) = 403)
       \<and> (role u = Client \<and> client b = userId u \<and> status b \<noteq> Completed
            \<longrightarrow> rate_booking now u i score review s
                  = ((400, ''Can only rate completed bookings''), s))
       \<and> (role u = Client \<and> client b = userId u \<and> status b = Completed
             \<and> truthy_num (rating_score b)
            \<longrightarrow> rate_booking now u i score review s
                  = ((400, ''Booking has already been rated''), s))"
  using assms
  by (auto simp: rate_booking_def findBookingById_def authorizeRoles_def)

lemma rate_booking_date_passed:
  assumes b: "storedBooking s i = Some b" and past: "date b \<le> now"
  shows "fst (rate_booking now u i score review s) \<noteq> (200, ''Booking rated successfully'')
         \<and> snd (rate_booking now u i score review s) = s"
proof -
  have "save_booking now (rating_doc now score review (loaded b)) s = Inl ValidationError"
    using rating_doc_date_passed [OF past] by (simp add: save_booking_def)
  then show ?thesis
    using b by (auto simp: rate_booking_def findBookingById_def Let_def)
qed

text \<open>
  C5 on the code. Booking 2 of the sample store is completed, belongs to client 10, has
  the date 1000 and carries no score. Client 10 rates it with the score 4. At time 5 the
  call succeeds, as the claim says. At time 2000, after the date of the booking, all three
  conditions of the claim hold as well, but the save of the booking runs the validator of
  \<open>date\<close> (the date must be after the clock) again and fails: the handler does not
  succeed and no score is stored.
\<close>

theorem rate_refused_after_booking_date:
  "storedBooking sampleStore 2 = Some (sampleBooking 2 Completed None)
   \<and> date (sampleBooking 2 Completed None) = 1000
   \<and> client (sampleBooking 2 Completed None) = userId clientUser
   \<and> role clientUser = Client
   \<and> status (sampleBooking 2 Completed None) = Completed
   \<and> rating_score (sampleBooking 2 Completed None) = None
   \<and> fst (rate_booking 5 clientUser 2 4 None sampleStore)
       = (200, ''Booking rated successfully'')
   \<and> save_booking 2000 (rating_doc 2000 4 None (loaded (sampleBooking 2 Completed None)))
        sampleStore
       = Inl ValidationError
   \<and> rate_booking 2000 clientUser 2 4 None sampleStore
       = (errorHandler ValidationError, sampleStore)
   \<and> map_option rating_score
        (storedBooking (snd (rate_booking 2000 clientUser 2 4 None sampleStore)) 2)
       = Some None"
  by code_simp

theorem rate_refused_after_booking_date_witness:
  "fst (rate_booking 2000 clientUser 2 4 None sampleStore)
     \<noteq> (200, ''Booking rated successfully'')
   \<and> snd (rate_booking 2000 clientUser 2 4 None sampleStore) = sampleStore"
  using rate_refused_after_booking_date by simp

text \<open>
  C4. After a successful rate operation on a booking whose consultant has a profile, the
  profile's \<open>rating.average\<close> is the arithmetic mean of the scores of all bookings of that
  consultant that carry a score, as they stand in the store after the operation, and
  \<open>rating.count\<close> is the number of those bookings. The values the profile held before do
  not enter the result.
\<close>

theorem rate_recomputes_mean:
  assumes ok: "fst (rate_booking now u i score review s) = (200, ''Booking rated successfully'')"
    and b: "storedBooking s i = Some b"
    and c: "storedConsultant s (consultant b) = Some c"
  shows "storedConsultant (snd (rate_booking now u i score review s)) (consultant b)
           = Some (c\<lparr>rating_average :=
                       mean (scoresOf (snd (rate_booking now u i score review s)) (consultant b)),
                     rating_count :=
                       length (scoresOf (snd (rate_booking now u i score review s))
                                 (consultant b))\<rparr>)"
proof -
  obtain b1 where run: "rate_booking now u i score review s
                = recompute_rating (consultant b)
                    (s\<lparr>bookingColl :=
                         map (\<lambda>x. if bookingId x = i then b1 else x) (bookingColl s)\<rparr>)"
    using rate_success_run [OF ok b] by blast
  let ?s1 = "s\<lparr>bookingColl := map (\<lambda>x. if bookingId x = i then b1 else x) (bookingColl s)\<rparr>"
  have c1: "storedConsultant ?s1 (consultant b) = Some c"
    using c by (simp add: storedConsultant_def)
  have ok1: "fst (recompute_rating (consultant b) ?s1) = (200, ''Booking rated successfully'')"
    using ok run by simp
  have so: "scoresOf (snd (recompute_rating (consultant b) ?s1)) (consultant b)
              = scoresOf ?s1 (consultant b)"
    by (simp add: scoresOf_def)
  show ?thesis
    unfolding run using recompute_rating_success [OF ok1 c1] so by simp
qed

theorem rate_recomputes_mean_witness:
  "fst (rate_booking 5 clientUser 2 4 None sampleStore) = (200, ''Booking rated successfully'')
   \<and> storedBooking sampleStore 2 = Some (sampleBooking 2 Completed None)
   \<and> storedConsultant sampleStore 20 = Some sampleConsultant
   \<and> scoresOf (snd (rate_booking 5 clientUser 2 4 None sampleStore)) 20 = [4, 5, 3]
   \<and> storedConsultant (snd (rate_booking 5 clientUser 2 4 None sampleStore)) 20
       = Some (sampleConsultant\<lparr>rating_average := 4, rating_count := 3\<rparr>)"
proof -
  have ok: "fst (rate_booking 5 clientUser 2 4 None sampleStore)
              = (200, ''Booking rated successfully'')"
    by code_simp
  have sc: "scoresOf (snd (rate_booking 5 clientUser 2 4 None sampleStore)) 20 = [4, 5, 3]"
    by code_simp
  have c: "storedConsultant sampleStore (consultant (sampleBooking 2 Completed None))
             = Some sampleConsultant"
    using sample_facts by simp
  show ?thesis
    using rate_recomputes_mean [OF ok sample_facts(1) c] ok sc sample_facts
    by (simp add: mean_def)
qed

section \<open>C10: the divisor of the average\<close>

lemma recompute_rating_no_profile:
  "storedConsultant s1 cid = None
     \<Longrightarrow> recompute_rating cid s1 = ((200, ''Booking rated successfully''), s1)"
  by (simp add: recompute_rating_def findConsultantById_def)

lemma mean_scores_in_range:
  assumes ne: "findRated s c \<noteq> []" and inv: "scoresInRange s"
  shows "1 \<le> mean (scoresOf s c) \<and> mean (scoresOf s c) \<le> 5 \<and> 1 \<le> length (scoresOf s c)"
proof -
  let ?xs = "scoresOf s c"
  have xs: "map score_of (findRated s c) = ?xs" by (rule scores_of_rated)
  have len: "length (findRated s c) = length ?xs" using xs by (metis length_map)
  have xne: "?xs \<noteq> []" using ne xs by (metis map_is_Nil_conv)
  have rng: "\<forall>b \<in> set (findRated s c). 1 \<le> score_of b \<and> score_of b \<le> 5"
    using findRated_in_range [OF inv] by blast
  have "int (length ?xs) \<le> sum_list ?xs \<and> sum_list ?xs \<le> 5 * int (length ?xs)"
    using sum_scores_bounds [OF rng] xs len by simp
  then have "1 \<le> mean ?xs \<and> mean ?xs \<le> 5"
    using mean_bounds [OF xne] by simp
  moreover have "1 \<le> length ?xs"
    using xne by (cases ?xs) simp_all
  ultimately show ?thesis by simp
qed

text \<open>
  C10. The recomputation is reached when the rate operation has passed its guards and the
  save of the rated booking has returned. It then runs on the store \<open>s1\<close> in which the
  booking just rated has been saved: the list \<open>allRatings\<close> read from that store for the
  booking's consultant is not empty, so the divisor \<open>allRatings.length\<close> is not zero and
  the quotient is the mean of the scores. If moreover the scores in the store satisfy the
  schema (each between 1 and 5), the quotient lies between 1 and 5, and so does the average
  of a profile the consultant has after a successful call.
\<close>

theorem rate_divisor_not_zero:
  assumes r: "role u = Client" and v: "1 \<le> score" "score \<le> 5" "atMost_len 1000 review"
    and b: "storedBooking s i = Some b" and o: "client b = userId u"
    and st: "status b = Completed" and un: "rating_score b = None"
    and save: "save_booking now (rating_doc now score review (loaded b)) s = Inr s1"
  shows "rate_booking now u i score review s = recompute_rating (consultant b) s1
       \<and> findRated s1 (consultant b) \<noteq> []
       \<and> jsDivide (foldl (\<lambda>sum x. sum + score_of x) 0 (findRated s1 (consultant b)))
            (length (findRated s1 (consultant b)))
           = Some (mean (scoresOf s1 (consultant b)))
       \<and> (scoresInRange s \<longrightarrow>
            1 \<le> mean (scoresOf s1 (consultant b)) \<and> mean (scoresOf s1 (consultant b)) \<le> 5
            \<and> (\<forall>c'. fst (rate_booking now u i score review s)
                       = (200, ''Booking rated successfully'')
                     \<and> storedConsultant (snd (rate_booking now u i score review s))
                          (consultant b) = Some c'
                   \<longrightarrow> 1 \<le> rating_average c' \<and> rating_average c' \<le> 5
                       \<and> 1 \<le> rating_count c'))"
proof -
  let ?d = "rating_doc now score review (loaded b)"
  let ?b1 = "doc (booking_pre_save_endTime s ?d)"
  let ?cid = "consultant b"
  let ?xs = "scoresOf s1 ?cid"
  have un': "\<not> truthy_num (rating_score b)"
    using un by (simp add: truthy_num_def)
  have id: "bookingId b = i" using b by (rule storedBooking_id)
  have run: "rate_booking now u i score review s = recompute_rating ?cid s1"
    using rate_booking_unfold [OF r v b o st un', of now] save by simp
  have s1: "s1 = s\<lparr>bookingColl :=
                     map (\<lambda>x. if bookingId x = i then ?b1 else x) (bookingColl s)\<rparr>"
    using save_booking_loaded_Inr [OF save] id by simp
  have f: "bookingId ?b1 = i" "consultant ?b1 = ?cid" "rating_score ?b1 = Some score"
    using id by simp_all
  have ne: "findRated s1 ?cid \<noteq> []"
    unfolding s1 using rated_after_replace [OF storedBooking_mem [OF b] id f] .
  have xs: "map score_of (findRated s1 ?cid) = ?xs" by (rule scores_of_rated)
  have len: "length (findRated s1 ?cid) = length ?xs" using xs by (metis length_map)
  have xne: "?xs \<noteq> []" using ne xs by (metis map_is_Nil_conv)
  have quot: "jsDivide (foldl (\<lambda>sum x. sum + score_of x) 0 (findRated s1 ?cid))
                (length (findRated s1 ?cid)) = Some (mean ?xs)"
    using xne by (simp add: jsDivide_def foldl_score_sum xs len mean_def)
  have range: "1 \<le> mean ?xs \<and> mean ?xs \<le> 5
               \<and> (\<forall>c'. fst (rate_booking now u i score review s)
                          = (200, ''Booking rated successfully'')
                        \<and> storedConsultant (snd (rate_booking now u i score review s)) ?cid
                            = Some c'
                      \<longrightarrow> 1 \<le> rating_average c' \<and> rating_average c' \<le> 5
                          \<and> 1 \<le> rating_count c')"
    if inv: "scoresInRange s"
  proof -
    have inv1: "scoresInRange s1"
      unfolding s1 using scoresInRange_replace [OF inv f(3) v(1,2)] .
    note m = mean_scores_in_range [OF ne inv1]
    have "1 \<le> rating_average c' \<and> rating_average c' \<le> 5 \<and> 1 \<le> rating_count c'"
      if ok: "fst (rate_booking now u i score review s) = (200, ''Booking rated successfully'')"
        and c': "storedConsultant (snd (rate_booking now u i score review s)) ?cid = Some c'"
      for c'
    proof (cases "storedConsultant s1 ?cid")
      case None
      then show ?thesis
        using c' run recompute_rating_no_profile [OF None] by simp
    next
      case (Some c)
      have "fst (recompute_rating ?cid s1) = (200, ''Booking rated successfully'')"
        using ok run by simp
      from recompute_rating_success [OF this Some]
      have "c' = c\<lparr>rating_average := mean ?xs, rating_count := length ?xs\<rparr>"
        using c' run by simp
      then show ?thesis using m by simp
    qed
    then show ?thesis using m by blast
  qed
  show ?thesis
    using run ne quot range by blast
qed

theorem rate_divisor_not_zero_witness:
  "role clientUser = Client \<and> (1::int) \<le> 4 \<and> (4::int) \<le> 5 \<and> atMost_len 1000 None
   \<and> storedBooking sampleStore 2 = Some (sampleBooking 2 Completed None)
   \<and> client (sampleBooking 2 Completed None) = userId clientUser
   \<and> status (sampleBooking 2 Completed None) = Completed
   \<and> rating_score (sampleBooking 2 Completed None) = None
   \<and> scoresInRange sampleStore
   \<and> (\<exists>s1. save_booking 5 (rating_doc 5 4 None (loaded (sampleBooking 2 Completed None)))
               sampleStore = Inr s1
          \<and> rate_booking 5 clientUser 2 4 None sampleStore = recompute_rating 20 s1
          \<and> findRated s1 20 \<noteq> []
          \<and> jsDivide (foldl (\<lambda>sum x. sum + score_of x) 0 (findRated s1 20))
               (length (findRated s1 20)) = Some (mean (scoresOf s1 20))
          \<and> 1 \<le> mean (scoresOf s1 20) \<and> mean (scoresOf s1 20) \<le> 5)"
proof -
  let ?d = "rating_doc 5 4 None (loaded (sampleBooking 2 Completed None))"
  have v: "(1::int) \<le> 4" "(4::int) \<le> 5" "atMost_len 1000 None"
    by (simp_all add: atMost_len_def)
  have o: "client (sampleBooking 2 Completed None) = userId clientUser"
    using sample_facts by simp
  have "validate_booking 5 (doc ?d)"
    using rating_doc_valid [OF sample_facts(10) v] .
  then obtain s1 where save: "save_booking 5 ?d sampleStore = Inr s1"
    by (simp add: save_booking_def Let_def)
  show ?thesis
    using rate_divisor_not_zero
            [OF sample_facts(4) v sample_facts(1) o sample_facts(7) sample_facts(9) save]
          sample_facts v o save
    by simp
qed

section \<open>C2 and C3: counters kept by the pre-save hooks\<close>

lemma save_booking_loaded_consultants:
  assumes "save_booking now d s = Inr s1" and "\<not> isNew d" and "original d = None"
  shows "consultantColl s1 = consultantColl s"
  using save_booking_loaded_Inr [OF assms] by simp

lemma update_status_consultants_unchanged:
  "consultantColl (snd (update_status now u i st cnotes s)) = consultantColl s"
proof -
  have "consultantColl s1 = consultantColl s"
    if "save_booking now (status_update_doc now st cnotes (loaded b)) s = Inr s1" for b s1
    using save_booking_loaded_consultants [OF that] by simp
  then show ?thesis
    by (auto simp: update_status_def findBookingById_def findConsultantByUser_def Let_def
             split: option.splits sum.splits)
qed

text \<open>
  C2 on the code. Booking 1 of the sample store is pending; its consultant, whose
  \<open>completedBookings\<close> is 0, sets it to completed. The write succeeds and the booking is
  completed, but \<open>completedBookings\<close> is still 0: the hook tests \<open>this._original\<close>, which
  no code sets, so the increment is never made.
\<close>

theorem completed_edge_not_counted:
  "map_option status (storedBooking sampleStore 1) = Some Pending
   \<and> map_option completedBookings (storedConsultant sampleStore 20) = Some 0
   \<and> fst (update_status 5 consultantUser 1 Completed None sampleStore)
       = (200, ''Booking status updated successfully'')
   \<and> map_option status
        (storedBooking (snd (update_status 5 consultantUser 1 Completed None sampleStore)) 1)
       = Some Completed
   \<and> map_option completedBookings
        (storedConsultant (snd (update_status 5 consultantUser 1 Completed None sampleStore)) 20)
       = Some 0"
  by code_simp

lemma consultant_pre_save_without_original:
  "original d = None
     \<Longrightarrow> consultant_pre_save d s
          = (if isModified d ''categories'' \<and> categories (doc d) \<noteq> []
             then updateManyCategories (categories (doc d)) 1 s else s)"
  by (simp add: consultant_pre_save_def)

theorem completed_edge_not_counted_witness:
  "map_option completedBookings
     (storedConsultant (snd (update_status 5 consultantUser 1 Completed None sampleStore)) 20)
     = map_option completedBookings (storedConsultant sampleStore 20)"
  using completed_edge_not_counted by auto

text \<open>
  C3 on the code. In the sample store the one consultant lists category 30, whose counter
  is 1, and category 31 has counter 0. The consultant changes the list to category 31.
  The update succeeds and the counter of 31 becomes 1, but the counter of 30 is still 1
  although no profile lists it any more: the decrement is guarded by \<open>this._original\<close>,
  which no code sets.
\<close>

theorem removed_category_not_decremented:
  "fst (update_consultant consultantUser 20
          \<lparr>cq_categories = Some [31], cq_bio = None, cq_experience = None,
           cq_hourlyRate = None, cq_languages = None, cq_isActive = None\<rparr> sampleStore)
     = (200, ''Consultant profile updated successfully'')
   \<and> map_option consultantCount
        (storedCategory
          (snd (update_consultant consultantUser 20
                  \<lparr>cq_categories = Some [31], cq_bio = None, cq_experience = None,
                   cq_hourlyRate = None, cq_languages = None, cq_isActive = None\<rparr> sampleStore))
          30) = Some 1
   \<and> consultantsReferencing
        (snd (update_consultant consultantUser 20
                \<lparr>cq_categories = Some [31], cq_bio = None, cq_experience = None,
                 cq_hourlyRate = None, cq_languages = None, cq_isActive = None\<rparr> sampleStore))
        30 = 0
   \<and> map_option consultantCount
        (storedCategory
          (snd (update_consultant consultantUser 20
                  \<lparr>cq_categories = Some [31], cq_bio = None, cq_experience = None,
                   cq_hourlyRate = None, cq_languages = None, cq_isActive = None\<rparr> sampleStore))
          31) = Some 1"
  by code_simp

theorem removed_category_not_decremented_witness:
  "map_option consultantCount
     (storedCategory
       (snd (update_consultant consultantUser 20
               \<lparr>cq_categories = Some [31], cq_bio = None, cq_experience = None,
                cq_hourlyRate = None, cq_languages = None, cq_isActive = None\<rparr> sampleStore))
       30)
     = Some (1 + consultantsReferencing
                   (snd (update_consultant consultantUser 20
                           \<lparr>cq_categories = Some [31], cq_bio = None, cq_experience = None,
                            cq_hourlyRate = None, cq_languages = None, cq_isActive = None\<rparr>
                           sampleStore))
                   30)"
  using removed_category_not_decremented by auto


section \<open>C8: the end time\<close>

lemma digitChar_digit:
  assumes "n \<le> 9"
  shows "isDigit (digitChar n)" and "digitVal (digitChar n) = n"
proof -
  have "of_char (digitChar n) = (48 + n :: nat)"
    using assms by (simp add: digitChar_def)
  then show "isDigit (digitChar n)" and "digitVal (digitChar n) = n"
    using assms by (simp_all add: isDigit_def digitVal_def less_eq_char_def)
qed

lemma parse_pad:
  assumes "h \<le> 23" and "m \<le> 59"
  shows "parseClock (pad2 h @ '':'' @ pad2 m) = Some (60 * h + m)"
proof -
  have d: "h div 10 \<le> 9" "h mod 10 \<le> 9" "m div 10 \<le> 9" "m mod 10 \<le> 9"
    using assms by simp_all
  have hv: "10 * (h div 10) + h mod 10 = h" and mv: "10 * (m div 10) + m mod 10 = m"
    by simp_all
  show ?thesis
    using assms
    by (simp add: pad2_def digitChar_digit [OF d(1)] digitChar_digit [OF d(2)]
          digitChar_digit [OF d(3)] digitChar_digit [OF d(4)] hv mv)
qed

lemma parse_clockString:
  "parseClock (clockString (Some m)) = Some (m mod 1440)"
proof -
  have "(m mod 1440) div 60 \<le> 23" and "(m mod 1440) mod 60 \<le> 59"
    by arith+
  then show ?thesis
    using parse_pad [of "(m mod 1440) div 60" "(m mod 1440) mod 60"]
    by (simp add: clockString_def)
qed


lemma endTime_hook_padded:
  assumes w: "isModified d ''startTime'' \<or> isModified d ''duration''"
    and p: "parseClock (startTime (doc d)) = Some m"
  shows "endTime (doc (booking_pre_save_endTime s d)) = clockString (Some (m + duration (doc d)))"
    and "parseClock (endTime (doc (booking_pre_save_endTime s d)))
           = Some ((m + duration (doc d)) mod 1440)"
    and "m + duration (doc d) < 1440
           \<Longrightarrow> parseClock (endTime (doc (booking_pre_save_endTime s d)))
                = Some (m + duration (doc d))"
proof -
  show e: "endTime (doc (booking_pre_save_endTime s d))
             = clockString (Some (m + duration (doc d)))"
    using w p
    by (auto simp: booking_pre_save_endTime_def Let_def addMinutes_def split: option.splits)
  show "parseClock (endTime (doc (booking_pre_save_endTime s d)))
          = Some ((m + duration (doc d)) mod 1440)"
    by (simp add: e parse_clockString)
  then show "parseClock (endTime (doc (booking_pre_save_endTime s d)))
               = Some (m + duration (doc d))"
    if "m + duration (doc d) < 1440"
    using that by simp
qed

text \<open>
  C8 on the code. The pattern of the route and of the schema accepts a start time with a
  one-digit hour, such as \<open>9:00\<close>. For it the hook builds the text
  \<open>2000-01-01T9:00:00\<close>, which is not a date-time of the ISO form, so the date is
  invalid and the end time stored is \<open>Inval\<close>, the first five characters of
  \<open>Invalid Date\<close>, not the start time plus 60 minutes. (For a start time with a
  two-digit hour the hook stores the start time plus the duration, taken modulo the day:
  \<open>endTime_hook_padded\<close>.)
\<close>

theorem one_digit_hour_breaks_endTime:
  "valid_time ''9:00''
   \<and> fst (create_booking 5 clientUser 9
            \<lparr>p_consultant = 20, p_category = 30, p_date = 1000, p_startTime = ''9:00'',
             p_endTime = ''10:00'', p_duration = 60, p_totalAmount = 50,
             p_meetingType = None, p_notes_client = None\<rparr> sampleStore)
       = (201, ''Booking created successfully'')
   \<and> map_option endTime
        (storedBooking
          (snd (create_booking 5 clientUser 9
                  \<lparr>p_consultant = 20, p_category = 30, p_date = 1000, p_startTime = ''9:00'',
                   p_endTime = ''10:00'', p_duration = 60, p_totalAmount = 50,
                   p_meetingType = None, p_notes_client = None\<rparr> sampleStore)) 9)
       = Some ''Inval''"
  by code_simp

theorem one_digit_hour_breaks_endTime_witness:
  "map_option (\<lambda>b. parseClock (endTime b))
     (storedBooking
       (snd (create_booking 5 clientUser 9
               \<lparr>p_consultant = 20, p_category = 30, p_date = 1000, p_startTime = ''9:00'',
                p_endTime = ''10:00'', p_duration = 60, p_totalAmount = 50,
                p_meetingType = None, p_notes_client = None\<rparr> sampleStore)) 9)
     = Some None"
proof -
  have "parseClock ''Inval'' = None"
    by code_simp
  then show ?thesis
    using one_digit_hour_breaks_endTime by auto
qed


section \<open>C7: the conflict check\<close>

lemma digit_order:
  assumes "isDigit c" and "isDigit d"
  shows "c < d \<longleftrightarrow> digitVal c < digitVal d" and "c = d \<longleftrightarrow> digitVal c = digitVal d"
    and "digitVal c \<le> 9"
proof -
  have c: "48 \<le> (of_char c :: nat)" "(of_char c :: nat) \<le> 57"
    and d: "48 \<le> (of_char d :: nat)" "(of_char d :: nat) \<le> 57"
    using assms by (simp_all add: isDigit_def less_eq_char_def)
  show "c < d \<longleftrightarrow> digitVal c < digitVal d"
    using c d by (auto simp: less_char_def digitVal_def)
  have "c = d \<longleftrightarrow> (of_char c :: nat) = of_char d"
    by simp
  also have "\<dots> \<longleftrightarrow> digitVal c = digitVal d"
    unfolding digitVal_def using c d by arith
  finally show "c = d \<longleftrightarrow> digitVal c = digitVal d" .
  show "digitVal c \<le> 9"
    using c by (simp add: digitVal_def)
qed

lemma lex4:
  fixes a1 a2 a3 a4 b1 b2 b3 b4 :: nat
  assumes "a2 \<le> 9" "b2 \<le> 9" "10 * a3 + a4 \<le> 59" "10 * b3 + b4 \<le> 59" "a4 \<le> 9" "b4 \<le> 9"
  shows "(a1 < b1 \<or> a1 = b1 \<and> (a2 < b2 \<or> a2 = b2 \<and> (a3 < b3 \<or> a3 = b3 \<and> a4 < b4)))
         \<longleftrightarrow> 60 * (10 * a1 + a2) + (10 * a3 + a4) < 60 * (10 * b1 + b2) + (10 * b3 + b4)"
  using assms by auto

lemma parseClock_shape:
  assumes "parseClock a = Some m"
  obtains a1 a2 a3 a4 where "a = [a1, a2, CHR '':'', a3, a4]"
    and "isDigit a1" "isDigit a2" "isDigit a3" "isDigit a4"
    and "10 * digitVal a3 + digitVal a4 \<le> 59"
    and "m = 60 * (10 * digitVal a1 + digitVal a2) + (10 * digitVal a3 + digitVal a4)"
  using assms
  by (elim parseClock.elims) (auto split: if_splits)

lemma padded_less:
  assumes "parseClock a = Some m" and "parseClock b = Some n"
  shows "a < b \<longleftrightarrow> m < n"
proof -
  obtain a1 a2 a3 a4 where a: "a = [a1, a2, CHR '':'', a3, a4]"
    and da: "isDigit a1" "isDigit a2" "isDigit a3" "isDigit a4"
    and ma: "10 * digitVal a3 + digitVal a4 \<le> 59"
    and m: "m = 60 * (10 * digitVal a1 + digitVal a2) + (10 * digitVal a3 + digitVal a4)"
    using assms(1) by (rule parseClock_shape)
  obtain b1 b2 b3 b4 where b: "b = [b1, b2, CHR '':'', b3, b4]"
    and db: "isDigit b1" "isDigit b2" "isDigit b3" "isDigit b4"
    and mb: "10 * digitVal b3 + digitVal b4 \<le> 59"
    and n: "n = 60 * (10 * digitVal b1 + digitVal b2) + (10 * digitVal b3 + digitVal b4)"
    using assms(2) by (rule parseClock_shape)
  have "a < b \<longleftrightarrow>
          (digitVal a1 < digitVal b1 \<or> digitVal a1 = digitVal b1
            \<and> (digitVal a2 < digitVal b2 \<or> digitVal a2 = digitVal b2
              \<and> (digitVal a3 < digitVal b3 \<or> digitVal a3 = digitVal b3
                \<and> digitVal a4 < digitVal b4)))"
    by (simp add: a b digit_order(1,2) [OF da(1) db(1)] digit_order(1,2) [OF da(2) db(2)]
          digit_order(1,2) [OF da(3) db(3)] digit_order(1,2) [OF da(4) db(4)])
  also have "\<dots> \<longleftrightarrow> m < n"
    unfolding m n
    by (rule lex4) (use ma mb digit_order(3) da db in simp_all)
  finally show ?thesis .
qed

lemma padded_less_minutes:
  assumes "parseClock a \<noteq> None" and "parseClock b \<noteq> None"
  shows "a < b \<longleftrightarrow> clockMinutes a < clockMinutes b"
  using assms padded_less [of a _ b] by (auto simp: clockMinutes_def)

text \<open>
  What \<open>checkConflict\<close> computes. Called with four arguments, it returns a booking exactly
  when the store holds a booking of the same consultant on the same date, neither
  cancelled nor no-show, whose \<open>startTime\<close> is less than the given end time and whose
  \<open>endTime\<close> is greater than the given start time, both as strings. When the stored times
  and the given times all have the form HH:MM with two digits for the hour, the order of
  the strings is the order of the clock times, and the condition says that the half-open
  intervals overlap.
\<close>

lemma checkConflict_string_order:
  "checkConflict s c d st et None \<noteq> None
     \<longleftrightarrow> (\<exists>b \<in> set (bookingColl s).
            consultant b = c \<and> date b = d \<and> status b \<noteq> Cancelled \<and> status b \<noteq> NoShow
            \<and> startTime b < et \<and> endTime b > st)"
  by (auto simp: checkConflict_def find_None_iff)

lemma checkConflict_two_digit_hours:
  assumes p: "\<forall>b \<in> set (bookingColl s).
                parseClock (startTime b) \<noteq> None \<and> parseClock (endTime b) \<noteq> None"
    and q: "parseClock st \<noteq> None" "parseClock et \<noteq> None"
  shows "checkConflict s c d st et None \<noteq> None
           \<longleftrightarrow> (\<exists>b \<in> set (bookingColl s).
                  consultant b = c \<and> date b = d \<and> status b \<noteq> Cancelled
                  \<and> status b \<noteq> NoShow
                  \<and> clockMinutes (startTime b) < clockMinutes et
                  \<and> clockMinutes (endTime b) > clockMinutes st)"
proof -
  have "startTime b < et \<longleftrightarrow> clockMinutes (startTime b) < clockMinutes et"
    and "st < endTime b \<longleftrightarrow> clockMinutes st < clockMinutes (endTime b)"
    if "b \<in> set (bookingColl s)" for b
    using that p q by (simp_all add: padded_less_minutes)
  then show ?thesis
    unfolding checkConflict_string_order by blast
qed

text \<open>
  C7 on the code. Booking 1 of the sample store is a pending booking of consultant 20 on
  the date 1000 from \<open>09:00\<close> to \<open>10:00\<close>. The interval from \<open>9:30\<close> to \<open>9:45\<close>, two times
  that the pattern of the schema and of the routes accepts, lies inside it, so the two
  half-open intervals overlap. \<open>checkConflict\<close> reports no conflict: the query compares the
  times as strings, and the string \<open>10:00\<close> is not greater than the string \<open>9:30\<close>. The
  same interval written \<open>09:30\<close> to \<open>09:45\<close> is reported.
\<close>

theorem checkConflict_misses_one_digit_hour:
  "storedBooking sampleStore 1 = Some (sampleBooking 1 Pending None)
   \<and> consultant (sampleBooking 1 Pending None) = 20
   \<and> date (sampleBooking 1 Pending None) = 1000
   \<and> startTime (sampleBooking 1 Pending None) = ''09:00''
   \<and> endTime (sampleBooking 1 Pending None) = ''10:00''
   \<and> valid_time ''9:30'' \<and> valid_time ''9:45''
   \<and> timeOfDay ''09:00'' = Some 540 \<and> timeOfDay ''10:00'' = Some 600
   \<and> timeOfDay ''9:30'' = Some 570 \<and> timeOfDay ''9:45'' = Some 585
   \<and> intervalsOverlap ''09:00'' ''10:00'' ''9:30'' ''9:45''
   \<and> ''09:00'' < ''9:45'' \<and> \<not> ''10:00'' > ''9:30''
   \<and> checkConflict sampleStore 20 1000 ''9:30'' ''9:45'' None = None
   \<and> checkConflict sampleStore 20 1000 ''09:30'' ''09:45'' None
       = Some (sampleBooking 1 Pending None)"
  by code_simp

theorem checkConflict_misses_one_digit_hour_witness:
  "intervalsOverlap (startTime (sampleBooking 1 Pending None))
     (endTime (sampleBooking 1 Pending None)) ''9:30'' ''9:45''
   \<and> checkConflict sampleStore 20 1000 ''9:30'' ''9:45'' None = None"
  using checkConflict_misses_one_digit_hour by simp

section \<open>C9: category names\<close>

lemma of_char_toUpperCase:
  "(of_char (toUpperCase c) :: nat)
     = (if 97 \<le> (of_char c :: nat) \<and> (of_char c :: nat) \<le> 122 then of_char c - 32 else of_char c)"
proof (cases "97 \<le> (of_char c :: nat) \<and> (of_char c :: nat) \<le> 122")
  case True
  then have "(of_char c - 32 :: nat) mod 256 = of_char c - 32"
    by (intro mod_less) arith
  then show ?thesis
    using True by (simp add: toUpperCase_def less_eq_char_def)
next
  case False
  then have "toUpperCase c = c"
    by (auto simp: toUpperCase_def less_eq_char_def)
  then show ?thesis
    using False by auto
qed

lemma of_char_toLowerCase:
  "(of_char (toLowerCase c) :: nat)
     = (if 65 \<le> (of_char c :: nat) \<and> (of_char c :: nat) \<le> 90 then of_char c + 32 else of_char c)"
proof (cases "65 \<le> (of_char c :: nat) \<and> (of_char c :: nat) \<le> 90")
  case True
  then have "(of_char c + 32 :: nat) mod 256 = of_char c + 32"
    by (intro mod_less) arith
  then show ?thesis
    using True by (simp add: toLowerCase_def less_eq_char_def)
next
  case False
  then have "toLowerCase c = c"
    by (auto simp: toLowerCase_def less_eq_char_def)
  then show ?thesis
    using False by auto
qed

lemma toLowerCase_toUpperCase [simp]: "toLowerCase (toUpperCase c) = toLowerCase c"
proof (rule of_char_eqI)
  show "(of_char (toLowerCase (toUpperCase c)) :: nat) = of_char (toLowerCase c)"
    unfolding of_char_toLowerCase of_char_toUpperCase by (simp split: if_splits) arith
qed

lemma toLowerCase_idem [simp]: "toLowerCase (toLowerCase c) = toLowerCase c"
proof (rule of_char_eqI)
  show "(of_char (toLowerCase (toLowerCase c)) :: nat) = of_char (toLowerCase c)"
    unfolding of_char_toLowerCase by simp
qed


lemma length_normalizeName [simp]: "length (normalizeName n) = length n"
  by (cases n) (simp_all add: normalizeName_def)



lemma created_simps [simp]:
  "doc (created ps x) = x" "isNew (created ps x) = True" "original (created ps x) = None"
  by (simp_all add: created_def)

lemma category_pre_save_simps [simp]:
  "name (doc (category_pre_save d)) = normalizeName (name (doc d))"
  "categoryId (doc (category_pre_save d)) = categoryId (doc d)"
  "isNew (category_pre_save d) = isNew d"
  by (simp_all add: category_pre_save_def)











section \<open>The stored scores stay in range\<close>

text \<open>
  The condition \<open>scoresInRange\<close> assumed of the store for C10 holds of the empty
  store and is kept by every booking operation, whatever its arguments: it holds of every
  store these operations can reach.
\<close>

lemma scoresInRange_empty:
  "scoresInRange \<lparr>bookingColl = [], consultantColl = cs, categoryColl = ks\<rparr>"
  by (simp add: scoresInRange_def)

lemma scoresInRange_replace_any:
  assumes "scoresInRange s" and "scoreInRange b1"
  shows "scoresInRange
           (s\<lparr>bookingColl := map (\<lambda>x. if bookingId x = i then b1 else x) (bookingColl s)\<rparr>)"
  using assms by (auto simp: scoresInRange_def list_all_iff)

lemma scoresInRange_saved:
  assumes inv: "scoresInRange s" and sv: "save_booking now d s = Inr s1"
    and ld: "\<not> isNew d" "original d = None" and sc: "scoreInRange (doc d)"
  shows "scoresInRange s1"
proof -
  have "scoreInRange (doc (booking_pre_save_endTime s d))"
    using sc by (simp add: scoreInRange_def)
  then show ?thesis
    using save_booking_loaded_Inr [OF sv ld] scoresInRange_replace_any [OF inv] by simp
qed

lemma scoresInRange_cong:
  "bookingColl s2 = bookingColl s1 \<Longrightarrow> scoresInRange s2 = scoresInRange s1"
  by (simp add: scoresInRange_def)

lemma scoresInRange_update_status:
  assumes inv: "scoresInRange s"
  shows "scoresInRange (snd (update_status now u i st cnotes s))"
proof -
  have "scoresInRange s1"
    if "storedBooking s i = Some b"
      and "save_booking now (status_update_doc now st cnotes (loaded b)) s = Inr s1" for b s1
  proof -
    have "scoreInRange (doc (status_update_doc now st cnotes (loaded b)))"
      using stored_in_range [OF inv that(1)]
      by (simp add: scoreInRange_def status_update_doc_def Let_def)
    then show ?thesis
      using scoresInRange_saved [OF inv that(2)] by simp
  qed
  then show ?thesis
    using inv
    by (auto simp: update_status_def findBookingById_def Let_def
             split: option.splits sum.splits)
qed

lemma scoresInRange_cancel_booking:
  assumes inv: "scoresInRange s"
  shows "scoresInRange (snd (cancel_booking now u i reason s))"
proof -
  have "scoresInRange s1"
    if "storedBooking s i = Some b"
      and "save_booking now (cancel_doc now reason (loaded b)) s = Inr s1" for b s1
  proof -
    have "scoreInRange (doc (cancel_doc now reason (loaded b)))"
      using stored_in_range [OF inv that(1)]
      by (simp add: scoreInRange_def cancel_doc_def Let_def)
    then show ?thesis
      using scoresInRange_saved [OF inv that(2)] by simp
  qed
  then show ?thesis
    using inv
    by (auto simp: cancel_booking_def findBookingById_def Let_def
             split: option.splits sum.splits)
qed

lemma scoresInRange_rate_booking:
  assumes inv: "scoresInRange s"
  shows "scoresInRange (snd (rate_booking now u i score review s))"
proof -
  have "scoresInRange (snd (recompute_rating c s1))"
    if "1 \<le> score" "score \<le> 5"
      and "save_booking now (rating_doc now score review (loaded b)) s = Inr s1" for b s1 c
  proof -
    have "scoreInRange (doc (rating_doc now score review (loaded b)))"
      using that(1,2) by (simp add: scoreInRange_def)
    then have "scoresInRange s1"
      using scoresInRange_saved [OF inv that(3)] by simp
    then show ?thesis
      by (simp add: scoresInRange_def)
  qed
  then show ?thesis
    using inv
    by (auto simp: rate_booking_def findBookingById_def Let_def
             split: option.splits sum.splits)
qed

lemma scoresInRange_create_booking:
  assumes inv: "scoresInRange s"
  shows "scoresInRange (snd (create_booking now u newId p s))"
proof -
  have "scoresInRange s1"
    if "save_booking now d s = Inr s1" and "isNew d" and "rating_score (doc d) = None" for d s1
    using that inv
    by (auto simp: save_booking_def write_booking_def Let_def scoresInRange_def
          scoreInRange_def split: if_splits)
  then show ?thesis
    using inv
    by (auto simp: create_booking_def Let_def split: sum.splits)
qed

end
